theory Spec2Isabelle
  imports Main
begin

section \<open>The terraform\_provider inventory plugin\<close>

text \<open>
  A shallow embedding of \<^verbatim>\<open>plugins/inventory/terraform_provider.py\<close>: the class
  \<^verbatim>\<open>InventoryModule\<close> with its methods \<^verbatim>\<open>_add_group\<close>, \<^verbatim>\<open>_add_host\<close>,
  \<^verbatim>\<open>create_inventory\<close> and \<^verbatim>\<open>parse\<close>.
\<close>

subsection \<open>Exceptions\<close>

text \<open>
  The exception classes the plugin names. A call that may raise returns \<open>exn + 'a\<close>,
  with \<open>Inl\<close> for the exception. \<open>OtherError\<close> stands for any exception class the
  plugin neither raises nor catches by name.
\<close>

datatype exn =
    TerraformWarning string
  | TerraformError string
  | AnsibleParserError string
  | OtherError string

subsection \<open>Decoded state documents\<close>

text \<open>
  \<^verbatim>\<open>TerraformAnsibleProvider\<close> is the attribute view \<^verbatim>\<open>_add_group\<close> and \<^verbatim>\<open>_add_host\<close>
  read: \<^verbatim>\<open>name\<close>, \<^verbatim>\<open>groups\<close>, \<^verbatim>\<open>children\<close>, \<^verbatim>\<open>variables\<close>. The dictionary
  \<^verbatim>\<open>variables\<close> is an association list in the order \<^verbatim>\<open>items()\<close> yields it.
\<close>

record TerraformAnsibleProvider =
  name :: string
  groups :: "string list"
  children :: "string list"
  variables :: "(string \<times> string) list"

text \<open>
  A \<^verbatim>\<open>TerraformModuleResource\<close> carries its \<^verbatim>\<open>type\<close> tag and the attribute values
  that \<^verbatim>\<open>TerraformAnsibleProvider.from_json\<close> decodes.
\<close>

record TerraformModuleResource =
  type :: string
  attrs :: TerraformAnsibleProvider

text \<open>
  Modelled from the spec: \<^verbatim>\<open>TerraformAnsibleProvider.from_json\<close> lives in
  \<^verbatim>\<open>module_utils/models.py\<close>, which is not part of the sources at hand. The spec calls
  it a derived view over the resource, so it is the projection of the decoded values.
\<close>

definition from_json :: "TerraformModuleResource \<Rightarrow> TerraformAnsibleProvider" where
  "from_json resource = attrs resource"

text \<open>
  A module of the state document: its own resources and its child modules. The root
  module of a document is \<^verbatim>\<open>state.values.root_module\<close>.
\<close>

datatype TerraformModule =
  TerraformModule (resources: "TerraformModuleResource list")
                  (child_modules: "TerraformModule list")

text \<open>
  Modelled from the spec: \<^verbatim>\<open>flatten_resources\<close> lives in \<^verbatim>\<open>module_utils/models.py\<close>,
  which is not part of the sources at hand. The spec: root resources first, then the
  child modules in their declared order, depth-first.
\<close>

fun flatten_resources :: "TerraformModule \<Rightarrow> TerraformModuleResource list" where
  "flatten_resources (TerraformModule rs cms) = rs @ concat (map flatten_resources cms)"

datatype TerraformShow = TerraformShow (root_module: TerraformModule)

subsection \<open>The inventory, as the calls made on it\<close>

text \<open>
  The plugin only ever calls four methods of the inventory object and never reads it
  back. The inventory is therefore the list of calls made on it so far, oldest first;
  \<open>Add_host n None\<close> is \<^verbatim>\<open>add_host(n)\<close> and \<open>Add_host n (Some g)\<close> is
  \<^verbatim>\<open>add_host(n, group=g)\<close>.
\<close>

datatype inventory_call =
    Add_group string
  | Add_child string string
  | Add_host string "string option"
  | Set_variable string string string

type_synonym inventory = "inventory_call list"

subsection \<open>\<^verbatim>\<open>_add_group\<close> and \<^verbatim>\<open>_add_host\<close>\<close>

text \<open>
  The two methods are \<open>module_add_group\<close> and \<open>module_add_host\<close> here: a name cannot
  start with an underscore.
\<close>

text \<open>The loop \<^verbatim>\<open>for child in attributes.children\<close> of \<^verbatim>\<open>_add_group\<close>.\<close>

fun add_children :: "inventory \<Rightarrow> string \<Rightarrow> string list \<Rightarrow> inventory" where
  "add_children inventory n [] = inventory"
| "add_children inventory n (child # rest) =
     add_children (inventory @ [Add_group child, Add_child n child]) n rest"

text \<open>The loop \<^verbatim>\<open>for key, value in attributes.variables.items()\<close> of both methods.\<close>

fun set_variables :: "inventory \<Rightarrow> string \<Rightarrow> (string \<times> string) list \<Rightarrow> inventory" where
  "set_variables inventory n [] = inventory"
| "set_variables inventory n ((key, val) # rest) =
     set_variables (inventory @ [Set_variable n key val]) n rest"

text \<open>The loop \<^verbatim>\<open>for group in attributes.groups\<close> of \<^verbatim>\<open>_add_host\<close>.\<close>

fun add_to_groups :: "inventory \<Rightarrow> string \<Rightarrow> string list \<Rightarrow> inventory" where
  "add_to_groups inventory n [] = inventory"
| "add_to_groups inventory n (g # rest) =
     add_to_groups (inventory @ [Add_group g, Add_host n (Some g)]) n rest"

definition module_add_group :: "inventory \<Rightarrow> TerraformModuleResource \<Rightarrow> inventory" where
  "module_add_group inventory resource =
     (let attributes = from_json resource;
          inventory1 = inventory @ [Add_group (name attributes)];
          inventory2 = (if children attributes \<noteq> []
                  then add_children inventory1 (name attributes) (children attributes)
                  else inventory1)
      in if variables attributes \<noteq> []
         then set_variables inventory2 (name attributes) (variables attributes)
         else inventory2)"

definition module_add_host :: "inventory \<Rightarrow> TerraformModuleResource \<Rightarrow> inventory" where
  "module_add_host inventory resource =
     (let attributes = from_json resource;
          inventory1 = inventory @ [Add_host (name attributes) None];
          inventory2 = (if groups attributes \<noteq> []
                  then add_to_groups inventory1 (name attributes) (groups attributes)
                  else inventory1)
      in if variables attributes \<noteq> []
         then set_variables inventory2 (name attributes) (variables attributes)
         else inventory2)"

subsection \<open>\<^verbatim>\<open>create_inventory\<close>\<close>

text \<open>The inner loop \<^verbatim>\<open>for resource in root_resources\<close>, with its \<^verbatim>\<open>if\<close>/\<^verbatim>\<open>elif\<close>.\<close>

fun add_resources :: "inventory \<Rightarrow> TerraformModuleResource list \<Rightarrow> inventory" where
  "add_resources inventory [] = inventory"
| "add_resources inventory (resource # rest) =
     add_resources
       (if type resource = ''ansible_group'' then module_add_group inventory resource
        else if type resource = ''ansible_host'' then module_add_host inventory resource
        else inventory)
       rest"

fun create_inventory ::
  "inventory \<Rightarrow> TerraformShow option list \<Rightarrow> bool \<Rightarrow> inventory" where
  "create_inventory inventory [] search_child_modules = inventory"
| "create_inventory inventory (None # rest) search_child_modules =
     create_inventory inventory rest search_child_modules"
| "create_inventory inventory (Some state # rest) search_child_modules =
     (let root_resources =
            (if \<not> search_child_modules then resources (root_module state)
             else flatten_resources (root_module state))
      in create_inventory (add_resources inventory root_resources) rest search_child_modules)"

subsection \<open>The external tool\<close>

record TerraformWorkspaceContext =
  current :: string
  all :: "string list"

datatype WorkspaceCommand = SELECT

text \<open>
  \<^verbatim>\<open>TerraformCommands\<close> lives in \<^verbatim>\<open>module_utils/terraform_commands.py\<close>, which is not
  part of the sources at hand, and runs an external process: it is a parameter. Its
  three methods that \<^verbatim>\<open>parse\<close> calls read and change the world outside the plugin
  (the project directory), of some type \<open>'w\<close>; each returns its result or the exception
  it raises, and the world after the call. \<open>tf_workspace_list\<close> is
  \<^verbatim>\<open>workspace_list()\<close>, \<open>tf_workspace\<close> is \<^verbatim>\<open>workspace(command, name)\<close> and \<open>tf_show\<close> is
  \<^verbatim>\<open>show(state_file)\<close>.
\<close>

record 'w TerraformCommands =
  tf_workspace_list :: "'w \<Rightarrow> (exn + TerraformWorkspaceContext) \<times> 'w"
  tf_workspace :: "WorkspaceCommand \<Rightarrow> string \<Rightarrow> 'w \<Rightarrow> (exn + unit) \<times> 'w"
  tf_show :: "string \<Rightarrow> 'w \<Rightarrow> (exn + TerraformShow option) \<times> 'w"

text \<open>
  The calls \<^verbatim>\<open>parse\<close> makes on the tool are recorded in the order they are made: the
  project path of the \<^verbatim>\<open>TerraformCommands\<close> object, the arguments, and what the call
  returned or raised.
\<close>

datatype tool_call =
    Workspace_list string "exn + TerraformWorkspaceContext"
  | Workspace string WorkspaceCommand string "exn + unit"
  | Show string string "exn + TerraformShow option"

text \<open>
  What the loop over the project paths changes: the list \<^verbatim>\<open>state_content\<close>, the record
  of the calls made on the tool, and the world.
\<close>

record 'w loop_state =
  state_content :: "TerraformShow option list"
  issued :: "tool_call list"
  world :: 'w

subsection \<open>The body of the loop over the project paths\<close>

text \<open>
  ``Try getting workspaces'': \<^verbatim>\<open>workspace_list()\<close> inside \<^verbatim>\<open>try\<close>, with the handler for
  \<^verbatim>\<open>TerraformWarning\<close>. Any other exception leaves the loop.
\<close>

definition try_workspace_list ::
  "'w TerraformCommands \<Rightarrow> string \<Rightarrow> 'w loop_state \<Rightarrow>
     (exn + TerraformWorkspaceContext) \<times> 'w loop_state" where
  "try_workspace_list terraform path s =
     (case tf_workspace_list terraform (world s) of
        (r, w) \<Rightarrow>
          (case r of
             Inr workspace_ctx \<Rightarrow> Inr workspace_ctx
           | Inl (TerraformWarning e) \<Rightarrow> Inr \<lparr>current = ''default'', all = []\<rparr>
           | Inl e \<Rightarrow> Inl e,
           s\<lparr>issued := issued s @ [Workspace_list path r], world := w\<rparr>))"

text \<open>``Select the workspace'': \<^verbatim>\<open>terraform.workspace(WorkspaceCommand.SELECT, workspace)\<close>.\<close>

definition select_workspace ::
  "'w TerraformCommands \<Rightarrow> string \<Rightarrow> string \<Rightarrow> 'w loop_state \<Rightarrow>
     exn option \<times> 'w loop_state" where
  "select_workspace terraform workspace path s =
     (case tf_workspace terraform SELECT workspace (world s) of
        (r, w) \<Rightarrow>
          (case r of Inl e \<Rightarrow> Some e | Inr u \<Rightarrow> None,
           s\<lparr>issued := issued s @ [Workspace path SELECT workspace r], world := w\<rparr>))"

text \<open>
  ``Add the state content to the list'': \<^verbatim>\<open>state_content.append(terraform.show(state_file))\<close>
  inside \<^verbatim>\<open>try\<close>, with the handler that raises \<^verbatim>\<open>TerraformError(e.message)\<close> for a
  \<^verbatim>\<open>TerraformWarning\<close>.
\<close>

definition append_state ::
  "'w TerraformCommands \<Rightarrow> string \<Rightarrow> string \<Rightarrow> 'w loop_state \<Rightarrow>
     exn option \<times> 'w loop_state" where
  "append_state terraform state_file path s =
     (case tf_show terraform state_file (world s) of
        (r, w) \<Rightarrow>
          (let s1 = s\<lparr>issued := issued s @ [Show path state_file r], world := w\<rparr>
           in case r of
                Inr state \<Rightarrow> (None, s1\<lparr>state_content := state_content s1 @ [state]\<rparr>)
              | Inl (TerraformWarning e) \<Rightarrow> (Some (TerraformError e), s1)
              | Inl e \<Rightarrow> (Some e, s1)))"

text \<open>
  The rest of the body once \<^verbatim>\<open>workspace_ctx\<close> is bound: the check that the workspace
  exists, the select, the show. The first component of the result is the exception
  that leaves the loop, if any.
\<close>

definition use_workspace ::
  "'w TerraformCommands \<Rightarrow> string \<Rightarrow> string \<Rightarrow> string \<Rightarrow> TerraformWorkspaceContext \<Rightarrow>
     'w loop_state \<Rightarrow> exn option \<times> 'w loop_state" where
  "use_workspace terraform state_file workspace path workspace_ctx s =
     (if workspace \<notin> set (all workspace_ctx) \<and> workspace \<noteq> current workspace_ctx
      then (Some (TerraformError
                    (''Workspace '' @ workspace @ '' does not exist in '' @ path)), s)
      else
        (case (if current workspace_ctx \<noteq> workspace
               then select_workspace terraform workspace path s
               else (None, s)) of
           (Some e, s1) \<Rightarrow> (Some e, s1)
         | (None, s1) \<Rightarrow> append_state terraform state_file path s1))"

definition parse_path ::
  "'w TerraformCommands \<Rightarrow> string \<Rightarrow> string \<Rightarrow> string \<Rightarrow> 'w loop_state \<Rightarrow>
     exn option \<times> 'w loop_state" where
  "parse_path terraform state_file workspace path s =
     (case try_workspace_list terraform path s of
        (Inl e, s1) \<Rightarrow> (Some e, s1)
      | (Inr workspace_ctx, s1) \<Rightarrow>
          use_workspace terraform state_file workspace path workspace_ctx s1)"

text \<open>
  \<^verbatim>\<open>for path in project_path\<close>. The first argument builds the \<^verbatim>\<open>TerraformCommands\<close>
  object of a path.
\<close>

fun parse_paths ::
  "(string \<Rightarrow> 'w TerraformCommands) \<Rightarrow> string \<Rightarrow> string \<Rightarrow> string list \<Rightarrow> 'w loop_state \<Rightarrow>
     exn option \<times> 'w loop_state" where
  "parse_paths new_commands state_file workspace [] s = (None, s)"
| "parse_paths new_commands state_file workspace (path # rest) s =
     (case parse_path (new_commands path) state_file workspace path s of
        (Some e, s1) \<Rightarrow> (Some e, s1)
      | (None, s1) \<Rightarrow> parse_paths new_commands state_file workspace rest s1)"

subsection \<open>The configuration and \<^verbatim>\<open>parse\<close>\<close>

text \<open>
  The configuration dictionary: a key that is absent is \<open>None\<close>. \<^verbatim>\<open>project_path\<close> is a
  string or a list of strings.
\<close>

datatype path_setting = Str string | StrList "string list"

record config =
  cfg_project_path :: "path_setting option"
  cfg_state_file :: "string option"
  cfg_search_child_modules :: "bool option"
  cfg_binary_path :: "string option"
  cfg_workspace :: "string option"

text \<open>\<^verbatim>\<open>cfg.get(key, default)\<close>.\<close>

definition get :: "'a option \<Rightarrow> 'a \<Rightarrow> 'a" where
  "get v d = (case v of None \<Rightarrow> d | Some x \<Rightarrow> x)"

text \<open>
  What \<^verbatim>\<open>parse\<close> uses of the machine it runs on: the file loader (\<^verbatim>\<open>open\<close> and
  \<^verbatim>\<open>yaml.safe_load\<close>), \<^verbatim>\<open>os.getcwd()\<close>, \<^verbatim>\<open>validate_bin_path\<close>,
  \<^verbatim>\<open>process.get_bin_path\<close> and the constructor of \<^verbatim>\<open>TerraformCommands\<close> for a project
  path and a binary.
\<close>

record 'w environment =
  load_yaml :: "string \<Rightarrow> exn + config"
  getcwd :: string
  validate_bin_path :: "string \<Rightarrow> exn + unit"
  get_bin_path :: "string \<Rightarrow> exn + string"
  new_TerraformCommands :: "string \<Rightarrow> string \<Rightarrow> 'w TerraformCommands"

fun message :: "exn \<Rightarrow> string" where
  "message (TerraformWarning m) = m"
| "message (TerraformError m) = m"
| "message (AnsibleParserError m) = m"
| "message (OtherError m) = m"

text \<open>\<^verbatim>\<open>read_config_data\<close>: any exception becomes an \<^verbatim>\<open>AnsibleParserError\<close>.\<close>

definition read_config_data :: "'w environment \<Rightarrow> string \<Rightarrow> exn + config" where
  "read_config_data env path =
     (case load_yaml env path of
        Inr cfg \<Rightarrow> Inr cfg
      | Inl e \<Rightarrow> Inl (AnsibleParserError (message e)))"

text \<open>
  The lines of \<^verbatim>\<open>parse\<close> that bind \<^verbatim>\<open>terraform_binary\<close>: a configured binary is
  validated, otherwise the binary is looked up; either may raise.
\<close>

definition find_terraform_binary :: "'w environment \<Rightarrow> config \<Rightarrow> exn + string" where
  "find_terraform_binary env cfg =
     (let terraform_binary = cfg_binary_path cfg
      in case terraform_binary of
           Some b \<Rightarrow> (case validate_bin_path env b of Inl e \<Rightarrow> Inl e | Inr u \<Rightarrow> Inr b)
         | None \<Rightarrow> get_bin_path env ''terraform'')"

text \<open>
  The lines of \<^verbatim>\<open>parse\<close> that bind \<^verbatim>\<open>project_path\<close>: the configured value or the
  current directory, and a string becomes the list of that one string.
\<close>

definition project_paths :: "'w environment \<Rightarrow> config \<Rightarrow> string list" where
  "project_paths env cfg =
     (let project_path = get (cfg_project_path cfg) (Str (getcwd env))
      in case project_path of Str p \<Rightarrow> [p] | StrList ps \<Rightarrow> ps)"

text \<open>
  The result of a run of \<^verbatim>\<open>parse\<close>: the exception it raised if any, the inventory
  after it, the arguments of every call of \<^verbatim>\<open>create_inventory\<close> it made, and the state
  the loop over the paths was left in.
\<close>

record 'w run =
  raised :: "exn option"
  inventory_after :: inventory
  built :: "(TerraformShow option list \<times> bool) list"
  loop :: "'w loop_state"

text \<open>
  \<^verbatim>\<open>parse\<close>. The call of the base class's \<^verbatim>\<open>parse\<close> stores its arguments and touches
  neither the inventory nor the tool.
\<close>

definition parse :: "'w environment \<Rightarrow> inventory \<Rightarrow> string \<Rightarrow> 'w \<Rightarrow> 'w run" where
  "parse env inventory path w =
     (let s0 = \<lparr>state_content = [], issued = [], world = w\<rparr> in
      case read_config_data env path of
        Inl e \<Rightarrow> \<lparr>raised = Some e, inventory_after = inventory, built = [], loop = s0\<rparr>
      | Inr cfg \<Rightarrow>
          (let project_path = project_paths env cfg;
               state_file = get (cfg_state_file cfg) [];
               search_child_modules = get (cfg_search_child_modules cfg) True;
               workspace = get (cfg_workspace cfg) ''default''
           in case find_terraform_binary env cfg of
                Inl e \<Rightarrow>
                  \<lparr>raised = Some e, inventory_after = inventory, built = [], loop = s0\<rparr>
              | Inr terraform_binary \<Rightarrow>
                  (case parse_paths (\<lambda>p. new_TerraformCommands env p terraform_binary)
                          state_file workspace project_path s0 of
                     (Some e, s) \<Rightarrow>
                       \<lparr>raised = Some e, inventory_after = inventory, built = [], loop = s\<rparr>
                   | (None, s) \<Rightarrow>
                       if state_content s \<noteq> []
                       then \<lparr>raised = None,
                             inventory_after =
                               create_inventory inventory (state_content s)
                                 search_child_modules,
                             built = [(state_content s, search_child_modules)],
                             loop = s\<rparr>
                       else \<lparr>raised = None, inventory_after = inventory, built = [],
                             loop = s\<rparr>)))"

subsection \<open>The inventory graph\<close>

text \<open>
  Modelled from the spec: the inventory object belongs to the host framework, not to
  this repository. The spec describes it as groups (a set, with parent-child edges and
  a variable map) and hosts (a set, with their group memberships and a variable map),
  changed only by calls that are safe to repeat: a call adds to a set or overwrites one
  variable. \<open>graph_members\<close> holds the pairs (host, group); \<open>graph_vars\<close> maps an
  entity name and a key to the value set last.
\<close>

record InventoryGraph =
  graph_groups :: "string set"
  graph_edges :: "(string \<times> string) set"
  graph_hosts :: "string set"
  graph_members :: "(string \<times> string) set"
  graph_vars :: "string \<times> string \<rightharpoonup> string"

definition empty_graph :: InventoryGraph where
  "empty_graph = \<lparr>graph_groups = {}, graph_edges = {}, graph_hosts = {},
                   graph_members = {}, graph_vars = Map.empty\<rparr>"

fun apply_call :: "InventoryGraph \<Rightarrow> inventory_call \<Rightarrow> InventoryGraph" where
  "apply_call G (Add_group n) = G\<lparr>graph_groups := insert n (graph_groups G)\<rparr>"
| "apply_call G (Add_child p c) = G\<lparr>graph_edges := insert (p, c) (graph_edges G)\<rparr>"
| "apply_call G (Add_host h None) = G\<lparr>graph_hosts := insert h (graph_hosts G)\<rparr>"
| "apply_call G (Add_host h (Some g)) =
     G\<lparr>graph_hosts := insert h (graph_hosts G),
       graph_members := insert (h, g) (graph_members G)\<rparr>"
| "apply_call G (Set_variable e k v) = G\<lparr>graph_vars := (graph_vars G)((e, k) \<mapsto> v)\<rparr>"

text \<open>The graph after a list of calls, applied oldest first.\<close>

definition build :: "InventoryGraph \<Rightarrow> inventory \<Rightarrow> InventoryGraph" where
  "build G calls = foldl apply_call G calls"

subsection \<open>A sample machine\<close>

text \<open>
  Concrete inputs on which the statements below are run. The project \<open>web\<close> has a
  group, a host in it and a resource of another type; the project \<open>db\<close> has its only
  host in a child module.
\<close>

definition web_group :: TerraformModuleResource where
  "web_group = \<lparr>type = ''ansible_group'',
                 attrs = \<lparr>name = ''web'', groups = [], children = [''workers''],
                          variables = [(''region'', ''us-east'')]\<rparr>\<rparr>"

definition bucket :: TerraformModuleResource where
  "bucket = \<lparr>type = ''unrelated_resource'',
              attrs = \<lparr>name = ''bucket'', groups = [], children = [], variables = []\<rparr>\<rparr>"

definition web1_host :: TerraformModuleResource where
  "web1_host = \<lparr>type = ''ansible_host'',
                 attrs = \<lparr>name = ''web1'', groups = [''web''], children = [],
                          variables = [(''ansible_host'', ''10.0.0.1'')]\<rparr>\<rparr>"

definition web_state :: TerraformShow where
  "web_state = TerraformShow (TerraformModule [web_group, bucket, web1_host] [])"

definition db_state :: TerraformShow where
  "db_state = TerraformShow (TerraformModule []
     [TerraformModule
        [\<lparr>type = ''ansible_host'',
          attrs = \<lparr>name = ''db1'', groups = [], children = [], variables = []\<rparr>\<rparr>]
        []])"

text \<open>
  The sample tool. The world is the list of the selects made so far, newest first, as
  pairs (project path, workspace). Every project knows the workspaces \<open>dev\<close> and
  \<open>default\<close>, the project \<open>db\<close> also \<open>staging\<close>; the listing of the project \<open>legacy\<close>
  warns; the show of the project \<open>empty\<close> warns, that of \<open>broken\<close> fails, that of
  \<open>blank\<close> returns \<^verbatim>\<open>None\<close>.
\<close>

definition sample_commands ::
  "string \<Rightarrow> string \<Rightarrow> (string \<times> string) list TerraformCommands" where
  "sample_commands p b =
     \<lparr>tf_workspace_list =
        (\<lambda>w. if p = ''legacy'' then (Inl (TerraformWarning ''no workspaces''), w)
             else (Inr \<lparr>current = (case map_of w p of Some c \<Rightarrow> c | None \<Rightarrow> ''default''),
                        all = (if p = ''db'' then [''dev'', ''default'', ''staging'']
                               else [''dev'', ''default''])\<rparr>, w)),
      tf_workspace = (\<lambda>c n w. (Inr (), (p, n) # w)),
      tf_show =
        (\<lambda>f w. if p = ''empty'' then (Inl (TerraformWarning ''no state''), w)
               else if p = ''broken'' then (Inl (TerraformError ''exit 1''), w)
               else if p = ''blank'' then (Inr None, w)
               else if p = ''db'' then (Inr (Some db_state), w)
               else (Inr (Some web_state), w))\<rparr>"

definition no_setting :: config where
  "no_setting = \<lparr>cfg_project_path = None, cfg_state_file = None,
                  cfg_search_child_modules = None, cfg_binary_path = None,
                  cfg_workspace = None\<rparr>"

definition sample_env :: "(string \<times> string) list environment" where
  "sample_env =
     \<lparr>load_yaml =
        (\<lambda>f. if f = ''child.yml'' then Inr (no_setting\<lparr>cfg_project_path := Some (Str ''db'')\<rparr>)
             else if f = ''multi.yml''
               then Inr (no_setting\<lparr>cfg_project_path := Some (StrList [''web'', ''empty'', ''db''])\<rparr>)
             else if f = ''staging.yml''
               then Inr (no_setting\<lparr>cfg_project_path := Some (StrList [''db'', ''web'']),
                                     cfg_workspace := Some ''staging''\<rparr>)
             else if f = ''dev.yml''
               then Inr (no_setting\<lparr>cfg_project_path := Some (StrList [''web'', ''web'']),
                                     cfg_workspace := Some ''dev''\<rparr>)
             else if f = ''broken.yml''
               then Inr (no_setting\<lparr>cfg_project_path := Some (StrList [''web'', ''broken''])\<rparr>)
             else if f = ''default.yml'' then Inr no_setting
             else Inl (OtherError ''No such file'')),
      getcwd = ''web'',
      validate_bin_path = (\<lambda>b. Inr ()),
      get_bin_path = (\<lambda>n. Inr (''/usr/bin/'' @ n)),
      new_TerraformCommands = sample_commands\<rparr>"

section \<open>Lemmas\<close>

subsection \<open>Each method appends to the inventory\<close>

lemma add_children_append: "add_children inventory n cs = inventory @ add_children [] n cs"
proof (induction cs arbitrary: inventory)
  case Nil
  show ?case by simp
next
  case (Cons c cs)
  show ?case
    using Cons.IH [of "inventory @ [Add_group c, Add_child n c]"]
          Cons.IH [of "[Add_group c, Add_child n c]"]
    by simp
qed

lemma set_variables_append:
  "set_variables inventory n vs = inventory @ set_variables [] n vs"
proof (induction vs arbitrary: inventory)
  case Nil
  show ?case by simp
next
  case (Cons kv vs)
  obtain k v where kv: "kv = (k, v)" by (cases kv)
  show ?case
    using Cons.IH [of "inventory @ [Set_variable n k v]"] Cons.IH [of "[Set_variable n k v]"]
    by (simp add: kv)
qed

lemma add_to_groups_append:
  "add_to_groups inventory n gs = inventory @ add_to_groups [] n gs"
proof (induction gs arbitrary: inventory)
  case Nil
  show ?case by simp
next
  case (Cons g gs)
  show ?case
    using Cons.IH [of "inventory @ [Add_group g, Add_host n (Some g)]"]
          Cons.IH [of "[Add_group g, Add_host n (Some g)]"]
    by simp
qed

lemma module_add_group_append:
  "module_add_group inventory r = inventory @ module_add_group [] r"
  unfolding module_add_group_def Let_def
  using add_children_append [of "inventory @ [Add_group (name (from_json r))]"]
        add_children_append [of "[Add_group (name (from_json r))]"]
        set_variables_append [of "inventory @ [Add_group (name (from_json r))]"]
        set_variables_append [of "[Add_group (name (from_json r))]"]
        set_variables_append [of "add_children (inventory @ [Add_group (name (from_json r))]) (name (from_json r)) (children (from_json r))"]
        set_variables_append [of "add_children [Add_group (name (from_json r))] (name (from_json r)) (children (from_json r))"]
  by simp

lemma module_add_host_append:
  "module_add_host inventory r = inventory @ module_add_host [] r"
  unfolding module_add_host_def Let_def
  using add_to_groups_append [of "inventory @ [Add_host (name (from_json r)) None]"]
        add_to_groups_append [of "[Add_host (name (from_json r)) None]"]
        set_variables_append [of "inventory @ [Add_host (name (from_json r)) None]"]
        set_variables_append [of "[Add_host (name (from_json r)) None]"]
        set_variables_append [of "add_to_groups (inventory @ [Add_host (name (from_json r)) None]) (name (from_json r)) (groups (from_json r))"]
        set_variables_append [of "add_to_groups [Add_host (name (from_json r)) None] (name (from_json r)) (groups (from_json r))"]
  by simp

lemma add_resources_append:
  "add_resources inventory rs = inventory @ add_resources [] rs"
proof (induction rs arbitrary: inventory)
  case Nil
  show ?case by simp
next
  case (Cons r rs)
  show ?case
    using Cons.IH [of "module_add_group inventory r"] Cons.IH [of "module_add_group [] r"]
          Cons.IH [of "module_add_host inventory r"] Cons.IH [of "module_add_host [] r"]
          Cons.IH [of inventory]
          module_add_group_append [of inventory r] module_add_host_append [of inventory r]
    by simp
qed

lemma create_inventory_append:
  "create_inventory inventory sc scm = inventory @ create_inventory [] sc scm"
proof (induction sc arbitrary: inventory)
  case Nil
  show ?case by simp
next
  case (Cons st sc)
  show ?case
  proof (cases st)
    case None
    then show ?thesis using Cons.IH [of inventory] by simp
  next
    case (Some state)
    define rs where "rs = (if \<not> scm then resources (root_module state)
                           else flatten_resources (root_module state))"
    have step: "create_inventory i (st # sc) scm = create_inventory (add_resources i rs) sc scm"
      for i
      by (simp add: Some rs_def)
    have "create_inventory inventory (st # sc) scm =
            add_resources inventory rs @ create_inventory [] sc scm"
      using step [of inventory] Cons.IH [of "add_resources inventory rs"] by simp
    moreover have "create_inventory [] (st # sc) scm =
            add_resources [] rs @ create_inventory [] sc scm"
      using step [of "[]"] Cons.IH [of "add_resources [] rs"] by simp
    ultimately show ?thesis
      using add_resources_append [of inventory rs] by simp
  qed
qed

subsection \<open>The graph after a list of calls\<close>

lemma build_snoc: "build G (cs @ [c]) = apply_call (build G cs) c"
  by (simp add: build_def)

lemma build_append: "build G (cs @ ds) = build (build G cs) ds"
  by (simp add: build_def)

lemma graph_groups_build:
  "graph_groups (build G cs) = graph_groups G \<union> {n. Add_group n \<in> set cs}"
proof (induction cs rule: rev_induct)
  case Nil
  show ?case by (simp add: build_def)
next
  case (snoc c cs)
  show ?case
    by (cases "(build G cs, c)" rule: apply_call.cases) (auto simp: build_snoc snoc.IH)
qed

lemma graph_edges_build:
  "graph_edges (build G cs) = graph_edges G \<union> {(p, c). Add_child p c \<in> set cs}"
proof (induction cs rule: rev_induct)
  case Nil
  show ?case by (simp add: build_def)
next
  case (snoc c cs)
  show ?case
    by (cases "(build G cs, c)" rule: apply_call.cases) (auto simp: build_snoc snoc.IH)
qed

lemma graph_hosts_build:
  "graph_hosts (build G cs) = graph_hosts G \<union> {h. \<exists>g. Add_host h g \<in> set cs}"
proof (induction cs rule: rev_induct)
  case Nil
  show ?case by (simp add: build_def)
next
  case (snoc c cs)
  show ?case
    by (cases "(build G cs, c)" rule: apply_call.cases) (auto simp: build_snoc snoc.IH)
qed

lemma graph_members_build:
  "graph_members (build G cs) = graph_members G \<union> {(h, g). Add_host h (Some g) \<in> set cs}"
proof (induction cs rule: rev_induct)
  case Nil
  show ?case by (simp add: build_def)
next
  case (snoc c cs)
  show ?case
    by (cases "(build G cs, c)" rule: apply_call.cases) (auto simp: build_snoc snoc.IH)
qed

lemma graph_vars_build:
  "graph_vars (build G cs) = graph_vars G ++ graph_vars (build empty_graph cs)"
proof (induction cs rule: rev_induct)
  case Nil
  show ?case by (simp add: build_def empty_graph_def)
next
  case (snoc c cs)
  show ?case
  proof (cases "(build G cs, c)" rule: apply_call.cases)
    case (5 G' e k v)
    have "graph_vars (build G (cs @ [c])) = (graph_vars G ++ graph_vars (build empty_graph cs))((e, k) \<mapsto> v)"
      using 5 snoc.IH by (simp add: build_snoc)
    moreover have "graph_vars (build empty_graph (cs @ [c])) = (graph_vars (build empty_graph cs))((e, k) \<mapsto> v)"
      using 5 by (simp add: build_snoc)
    ultimately show ?thesis by (simp add: fun_eq_iff map_add_def)
  qed (simp_all add: build_snoc snoc.IH)
qed

lemma map_add_twice: "(m ++ n) ++ n = m ++ n"
  by (rule ext) (simp add: map_add_def split: option.split)

lemma build_twice: "build (build G cs) cs = build G cs"
proof (rule InventoryGraph.equality)
  show "graph_vars (build (build G cs) cs) = graph_vars (build G cs)"
    using graph_vars_build [of "build G cs" cs] graph_vars_build [of G cs]
    by (simp add: map_add_twice)
qed (auto simp: graph_groups_build graph_edges_build graph_hosts_build graph_members_build)

lemma foldl_module_add_group_append:
  "foldl module_add_group inventory rs = inventory @ foldl module_add_group [] rs"
proof (induction rs arbitrary: inventory)
  case Nil
  show ?case by simp
next
  case (Cons r rs)
  show ?case
    using Cons.IH [of "module_add_group inventory r"] Cons.IH [of "module_add_group [] r"]
          module_add_group_append [of inventory r]
    by simp
qed

subsection \<open>The calls of one host record\<close>

lemma set_variables_map:
  "set_variables [] n vs = map (\<lambda>(k, v). Set_variable n k v) vs"
proof (induction vs)
  case Nil
  show ?case by simp
next
  case (Cons kv vs)
  obtain k v where kv: "kv = (k, v)" by (cases kv)
  show ?case
    using set_variables_append [of "[Set_variable n k v]" n vs] Cons.IH by (simp add: kv)
qed

lemma module_add_host_calls:
  "module_add_host [] r =
     Add_host (name (from_json r)) None #
     add_to_groups [] (name (from_json r)) (groups (from_json r)) @
     set_variables [] (name (from_json r)) (variables (from_json r))"
  using add_to_groups_append [of "[Add_host (name (from_json r)) None]"]
        set_variables_append [of "[Add_host (name (from_json r)) None]"]
        set_variables_append [of "add_to_groups [Add_host (name (from_json r)) None] (name (from_json r)) (groups (from_json r))"]
  by (simp add: module_add_host_def Let_def)

lemma add_to_groups_pair:
  "g \<in> set gs \<Longrightarrow>
     \<exists>pre post. add_to_groups [] n gs = pre @ [Add_group g, Add_host n (Some g)] @ post"
proof (induction gs)
  case Nil
  then show ?case by simp
next
  case (Cons a gs)
  show ?case
  proof (cases "g = a")
    case True
    have "add_to_groups [] n (a # gs) = [] @ [Add_group g, Add_host n (Some g)] @ add_to_groups [] n gs"
      using add_to_groups_append [of "[Add_group a, Add_host n (Some a)]" n gs] True by simp
    then show ?thesis by blast
  next
    case False
    with Cons.prems have "g \<in> set gs" by simp
    from Cons.IH [OF this] obtain pre post where
      "add_to_groups [] n gs = pre @ [Add_group g, Add_host n (Some g)] @ post" by blast
    then have "add_to_groups [] n (a # gs) =
        ([Add_group a, Add_host n (Some a)] @ pre) @ [Add_group g, Add_host n (Some g)] @ post"
      using add_to_groups_append [of "[Add_group a, Add_host n (Some a)]" n gs] by simp
    then show ?thesis by blast
  qed
qed

lemma add_to_groups_guard:
  "add_to_groups [] n gs = pre @ Add_host h (Some g) # post \<Longrightarrow>
     \<exists>pre'. pre = pre' @ [Add_group g]"
proof (induction gs arbitrary: pre)
  case Nil
  then show ?case by simp
next
  case (Cons a gs)
  have eq: "Add_group a # Add_host n (Some a) # add_to_groups [] n gs =
            pre @ Add_host h (Some g) # post"
    using Cons.prems add_to_groups_append [of "[Add_group a, Add_host n (Some a)]" n gs]
    by simp
  show ?case
  proof (cases pre)
    case Nil
    with eq show ?thesis by simp
  next
    case (Cons p1 pre1)
    note outer = this
    show ?thesis
    proof (cases pre1)
      case Nil
      with eq outer show ?thesis by auto
    next
      case (Cons p2 pre2)
      with eq outer have "add_to_groups [] n gs = pre2 @ Add_host h (Some g) # post" by simp
      from Cons.IH [OF this] obtain pre' where "pre2 = pre' @ [Add_group g]" by blast
      then have "pre = (p1 # p2 # pre') @ [Add_group g]" using outer Cons by simp
      then show ?thesis by blast
    qed
  qed
qed

lemma module_add_host_guard:
  assumes "module_add_host [] r = pre @ Add_host h (Some g) # post"
  shows "\<exists>pre'. pre = pre' @ [Add_group g]"
proof -
  let ?n = "name (from_json r)"
  let ?P = "add_to_groups [] ?n (groups (from_json r))"
  let ?V = "set_variables [] ?n (variables (from_json r))"
  have eq: "Add_host ?n None # ?P @ ?V = pre @ Add_host h (Some g) # post"
    using assms module_add_host_calls [of r] by simp
  then obtain pre1 where pre: "pre = Add_host ?n None # pre1"
    and eq1: "?P @ ?V = pre1 @ Add_host h (Some g) # post"
    by (cases pre) auto
  have notV: "Add_host h (Some g) \<notin> set ?V"
    by (auto simp: set_variables_map)
  from eq1 obtain us where
    "(?P = pre1 @ us \<and> us @ ?V = Add_host h (Some g) # post) \<or>
     (?P @ us = pre1 \<and> ?V = us @ Add_host h (Some g) # post)"
    by (auto simp: append_eq_append_conv2)
  then have "?P = pre1 @ us \<and> us @ ?V = Add_host h (Some g) # post"
    using notV by auto
  then obtain us' where "?P = pre1 @ Add_host h (Some g) # us'"
    using notV by (cases us) auto
  from add_to_groups_guard [OF this] obtain pre' where "pre1 = pre' @ [Add_group g]" by blast
  then have "pre = (Add_host ?n None # pre') @ [Add_group g]" using pre by simp
  then show ?thesis by blast
qed

lemma module_add_host_pair:
  assumes "g \<in> set (groups (from_json r))"
  shows "\<exists>pre post. module_add_host [] r =
           pre @ [Add_group g, Add_host (name (from_json r)) (Some g)] @ post"
proof -
  from add_to_groups_pair [OF assms] obtain pre post where
    "add_to_groups [] (name (from_json r)) (groups (from_json r)) =
       pre @ [Add_group g, Add_host (name (from_json r)) (Some g)] @ post" by blast
  then have "module_add_host [] r =
      (Add_host (name (from_json r)) None # pre) @
      [Add_group g, Add_host (name (from_json r)) (Some g)] @
      (post @ set_variables [] (name (from_json r)) (variables (from_json r)))"
    using module_add_host_calls [of r] by simp
  then show ?thesis by blast
qed

lemma module_add_host_no_dangling:
  assumes "\<forall>(h, g) \<in> graph_members G. g \<in> graph_groups G"
  shows "\<forall>(h, g) \<in> graph_members (build G (take k (module_add_host [] r))).
           g \<in> graph_groups (build G (take k (module_add_host [] r)))"
proof (clarify)
  fix h g
  assume m: "(h, g) \<in> graph_members (build G (take k (module_add_host [] r)))"
  let ?cs = "module_add_host [] r"
  show "g \<in> graph_groups (build G (take k ?cs))"
  proof (cases "(h, g) \<in> graph_members G")
    case True
    with assms show ?thesis by (auto simp: graph_groups_build)
  next
    case False
    with m have "Add_host h (Some g) \<in> set (take k ?cs)"
      by (auto simp: graph_members_build)
    then obtain pre post where t: "take k ?cs = pre @ Add_host h (Some g) # post"
      by (auto simp: in_set_conv_decomp)
    have "?cs = pre @ Add_host h (Some g) # (post @ drop k ?cs)"
      using append_take_drop_id [of k ?cs] t by (metis append.assoc append_Cons)
    from module_add_host_guard [OF this] obtain pre' where "pre = pre' @ [Add_group g]" by blast
    with t have "Add_group g \<in> set (take k ?cs)" by simp
    then show ?thesis by (simp add: graph_groups_build)
  qed
qed

subsection \<open>The loop over the project paths\<close>

lemmas body_defs = parse_path_def try_workspace_list_def use_workspace_def
  select_workspace_def append_state_def

lemma parse_path_show_warning:
  assumes "parse_path T sf ws p s = (r, s')"
      and "\<And>q f m. Show q f (Inl (TerraformWarning m)) \<notin> set (issued s)"
      and "Show q f (Inl (TerraformWarning m)) \<in> set (issued s')"
  shows "r = Some (TerraformError m) \<and> last (issued s') = Show q f (Inl (TerraformWarning m))
         \<and> state_content s' = state_content s"
  using assms
  by (auto simp: body_defs Let_def split: prod.splits sum.splits exn.splits if_splits option.splits)

lemma parse_path_no_warning:
  assumes "parse_path T sf ws p s = (None, s')"
      and "\<And>q f m. Show q f (Inl (TerraformWarning m)) \<notin> set (issued s)"
  shows "Show q f (Inl (TerraformWarning m)) \<notin> set (issued s')"
  using parse_path_show_warning [OF assms] by blast

lemma parse_paths_show_warning:
  assumes "parse_paths N sf ws ps s = (r, s')"
      and "\<And>q f m. Show q f (Inl (TerraformWarning m)) \<notin> set (issued s)"
      and "Show q f (Inl (TerraformWarning m)) \<in> set (issued s')"
  shows "r = Some (TerraformError m) \<and> last (issued s') = Show q f (Inl (TerraformWarning m))"
  using assms
proof (induction ps arbitrary: s)
  case Nil
  then show ?case by simp
next
  case (Cons p ps)
  obtain r1 s1 where step: "parse_path (N p) sf ws p s = (r1, s1)"
    by (cases "parse_path (N p) sf ws p s")
  show ?case
  proof (cases r1)
    case None
    have rest: "parse_paths N sf ws ps s1 = (r, s')"
      using Cons.prems(1) step None by simp
    have clean: "\<And>q f m. Show q f (Inl (TerraformWarning m)) \<notin> set (issued s1)"
      using parse_path_no_warning [OF step [unfolded None] Cons.prems(2)] .
    show ?thesis using Cons.IH [OF rest clean Cons.prems(3)] .
  next
    case (Some e)
    have "r = r1" "s' = s1" using Cons.prems(1) step Some by simp_all
    then show ?thesis
      using parse_path_show_warning [OF step Cons.prems(2)] Cons.prems(3) by blast
  qed
qed

lemma parse_raised:
  "raised (parse env inventory path w) \<noteq> None \<Longrightarrow>
     inventory_after (parse env inventory path w) = inventory \<and>
     built (parse env inventory path w) = []"
  by (auto simp: parse_def Let_def split: sum.splits prod.splits option.splits if_splits)

lemma parse_issued_nonempty:
  assumes "issued (loop (parse env inventory path w)) \<noteq> []"
  shows "\<exists>cfg b. read_config_data env path = Inr cfg \<and> find_terraform_binary env cfg = Inr b"
  using assms
  by (auto simp: parse_def Let_def split: sum.splits prod.splits option.splits if_splits)

lemma parse_loop:
  assumes "read_config_data env path = Inr cfg"
      and "find_terraform_binary env cfg = Inr b"
      and "parse_paths (\<lambda>p. new_TerraformCommands env p b) (get (cfg_state_file cfg) [])
             (get (cfg_workspace cfg) ''default'') (project_paths env cfg)
             \<lparr>state_content = [], issued = [], world = w\<rparr> = (r, s)"
  shows "raised (parse env inventory path w) = r"
    and "loop (parse env inventory path w) = s"
    and "r \<noteq> None \<Longrightarrow> inventory_after (parse env inventory path w) = inventory"
    and "r \<noteq> None \<Longrightarrow> built (parse env inventory path w) = []"
    and "r = None \<Longrightarrow> inventory_after (parse env inventory path w) =
           create_inventory inventory (state_content s) (get (cfg_search_child_modules cfg) True)"
    and "r = None \<Longrightarrow> built (parse env inventory path w) =
           (if state_content s = [] then []
            else [(state_content s, get (cfg_search_child_modules cfg) True)])"
  using assms
  by (auto simp: parse_def Let_def split: sum.splits prod.splits option.splits if_splits)

lemma parse_path_state_content:
  "parse_path T sf ws p s = (None, s') \<Longrightarrow> length (state_content s') = Suc (length (state_content s))"
  by (auto simp: body_defs Let_def split: prod.splits sum.splits exn.splits if_splits option.splits)

lemma parse_paths_state_content:
  "parse_paths N sf ws ps s = (None, s') \<Longrightarrow>
     length (state_content s') = length (state_content s) + length ps"
proof (induction ps arbitrary: s)
  case Nil
  then show ?case by simp
next
  case (Cons p ps)
  obtain r1 s1 where step: "parse_path (N p) sf ws p s = (r1, s1)"
    by (cases "parse_path (N p) sf ws p s")
  with Cons.prems have r1: "r1 = None" by (cases r1) simp_all
  with Cons.prems step have "parse_paths N sf ws ps s1 = (None, s')" by simp
  from Cons.IH [OF this] parse_path_state_content [OF step [unfolded r1]]
  show ?case by simp
qed

lemma parse_paths_append:
  "parse_paths N sf ws (ps @ qs) s =
     (case parse_paths N sf ws ps s of
        (Some e, s1) \<Rightarrow> (Some e, s1)
      | (None, s1) \<Rightarrow> parse_paths N sf ws qs s1)"
  by (induction ps arbitrary: s) (auto split: prod.splits option.splits)

subsection \<open>Resources of a given type\<close>

lemma add_resources_filter:
  "add_resources inventory rs =
     add_resources inventory
       (filter (\<lambda>r. type r = ''ansible_group'' \<or> type r = ''ansible_host'') rs)"
  by (induction rs arbitrary: inventory) simp_all

lemma add_resources_host:
  assumes "h \<in> set rs" and "type h = ''ansible_host''"
  shows "Add_host (name (from_json h)) None \<in> set (add_resources inventory rs)"
  using assms(1)
proof (induction rs arbitrary: inventory)
  case Nil
  then show ?case by simp
next
  case (Cons r rs)
  define step where "step = (if type r = ''ansible_group'' then module_add_group inventory r
                             else if type r = ''ansible_host'' then module_add_host inventory r
                             else inventory)"
  have unfold: "add_resources inventory (r # rs) = step @ add_resources [] rs"
    using add_resources_append [of step rs] by (simp add: step_def)
  show ?case
  proof (cases "h = r")
    case True
    then have "step = inventory @ module_add_host [] r"
      using assms(2) module_add_host_append [of inventory r] by (simp add: step_def)
    then have "Add_host (name (from_json h)) None \<in> set step"
      using True by (simp add: module_add_host_calls)
    then show ?thesis using unfold by simp
  next
    case False
    with Cons.prems have "h \<in> set rs" by simp
    from Cons.IH [OF this, of "[]"] show ?thesis using unfold by simp
  qed
qed

lemma resources_flatten: "set (resources m) \<subseteq> set (flatten_resources m)"
  by (cases m) simp

lemma create_inventory_host:
  assumes "Some state \<in> set sc" and "h \<in> set (resources (root_module state))"
      and "type h = ''ansible_host''"
  shows "Add_host (name (from_json h)) None \<in> set (create_inventory inventory sc scm)"
  using assms(1)
proof (induction sc arbitrary: inventory)
  case Nil
  then show ?case by simp
next
  case (Cons st sc)
  show ?case
  proof (cases st)
    case None
    with Cons.prems have "Some state \<in> set sc" by simp
    from Cons.IH [OF this, of inventory] show ?thesis using None by simp
  next
    case (Some state')
    define rs where "rs = (if \<not> scm then resources (root_module state')
                           else flatten_resources (root_module state'))"
    have unfold: "create_inventory inventory (st # sc) scm =
                    create_inventory (add_resources inventory rs) sc scm"
      by (simp add: Some rs_def)
    show ?thesis
    proof (cases "state' = state")
      case True
      have "h \<in> set rs"
        using assms(2) True resources_flatten [of "root_module state"] by (auto simp: rs_def)
      then have "Add_host (name (from_json h)) None \<in> set (add_resources inventory rs)"
        using assms(3) by (rule add_resources_host)
      then show ?thesis
        using unfold create_inventory_append [of "add_resources inventory rs" sc scm] by simp
    next
      case False
      with Cons.prems Some have "Some state \<in> set sc" by simp
      from Cons.IH [OF this, of "add_resources inventory rs"] show ?thesis using unfold by simp
    qed
  qed
qed

lemma add_resources_concat:
  "add_resources inventory rs =
     inventory @
     concat (map (\<lambda>r. if type r = ''ansible_group'' then module_add_group [] r
                      else if type r = ''ansible_host'' then module_add_host [] r
                      else []) rs)"
proof (induction rs arbitrary: inventory)
  case Nil
  show ?case by simp
next
  case (Cons r rs)
  show ?case
    using Cons.IH [of "module_add_group inventory r"] Cons.IH [of "module_add_host inventory r"]
          Cons.IH [of inventory]
          module_add_group_append [of inventory r] module_add_host_append [of inventory r]
    by simp
qed

lemma create_inventory_concat:
  "create_inventory inventory sc scm =
     inventory @
     concat (map (\<lambda>st. case st of
                          None \<Rightarrow> []
                        | Some state \<Rightarrow>
                            add_resources []
                              (if \<not> scm then resources (root_module state)
                               else flatten_resources (root_module state))) sc)"
proof (induction sc arbitrary: inventory)
  case Nil
  show ?case by simp
next
  case (Cons st sc)
  show ?case
  proof (cases st)
    case None
    then show ?thesis using Cons.IH [of inventory] by simp
  next
    case (Some state)
    define rs where "rs = (if \<not> scm then resources (root_module state)
                           else flatten_resources (root_module state))"
    have "create_inventory inventory (st # sc) scm =
            create_inventory (add_resources inventory rs) sc scm"
      by (simp add: Some rs_def)
    then show ?thesis
      using Cons.IH [of "add_resources inventory rs"] add_resources_append [of inventory rs]
      by (simp add: Some rs_def)
  qed
qed

lemma module_add_group_calls:
  "module_add_group [] r =
     Add_group (name (from_json r)) #
     add_children [] (name (from_json r)) (children (from_json r)) @
     set_variables [] (name (from_json r)) (variables (from_json r))"
  using add_children_append [of "[Add_group (name (from_json r))]"]
        set_variables_append [of "[Add_group (name (from_json r))]"]
        set_variables_append [of "add_children [Add_group (name (from_json r))] (name (from_json r)) (children (from_json r))"]
  by (simp add: module_add_group_def Let_def)

lemma create_inventory_group:
  assumes "Some state \<in> set sc" and "g \<in> set (resources (root_module state))"
      and "type g = ''ansible_group''"
  shows "Add_group (name (from_json g)) \<in> set (create_inventory inventory sc scm)"
proof -
  define rs where "rs = (if \<not> scm then resources (root_module state)
                         else flatten_resources (root_module state))"
  have "g \<in> set rs"
    using assms(2) resources_flatten [of "root_module state"] by (auto simp: rs_def)
  then have "Add_group (name (from_json g)) \<in> set (add_resources [] rs)"
    using assms(3) module_add_group_calls [of g]
    by (force simp: add_resources_concat [of "[]" rs])
  then show ?thesis
    using assms(1) unfolding create_inventory_concat [of inventory sc scm] rs_def
    by force
qed

subsection \<open>What one pass of the loop body does\<close>

lemma parse_path_selects:
  assumes "try_workspace_list terraform p s = (Inr workspace_ctx, s1)"
      and "ws \<in> set (all workspace_ctx) \<or> ws = current workspace_ctx"
      and "ws \<noteq> current workspace_ctx"
  shows "parse_path terraform sf ws p s =
           (case tf_workspace terraform SELECT ws (world s1) of
              (Inl e, w1) \<Rightarrow>
                (Some e, s1\<lparr>issued := issued s1 @ [Workspace p SELECT ws (Inl e)],
                            world := w1\<rparr>)
            | (Inr u, w1) \<Rightarrow>
                append_state terraform sf p
                  (s1\<lparr>issued := issued s1 @ [Workspace p SELECT ws (Inr u)], world := w1\<rparr>))"
  using assms
  by (auto simp: parse_path_def use_workspace_def select_workspace_def
           split: prod.splits sum.splits)

lemma parse_path_current:
  assumes "try_workspace_list terraform p s = (Inr workspace_ctx, s1)"
      and "ws = current workspace_ctx"
  shows "parse_path terraform sf ws p s = append_state terraform sf p s1"
  using assms by (simp add: parse_path_def use_workspace_def)

lemma parse_path_unknown:
  assumes "try_workspace_list terraform p s = (Inr workspace_ctx, s1)"
      and "ws \<notin> set (all workspace_ctx)" and "ws \<noteq> current workspace_ctx"
  shows "parse_path terraform sf ws p s =
           (Some (TerraformError (''Workspace '' @ ws @ '' does not exist in '' @ p)), s1)"
  using assms by (simp add: parse_path_def use_workspace_def)

lemma parse_path_no_context:
  assumes "try_workspace_list terraform p s = (Inl e, s1)"
  shows "parse_path terraform sf ws p s = (Some e, s1)"
  using assms by (simp add: parse_path_def)

subsection \<open>Running the sample machine\<close>

lemmas sample_defs = sample_env_def no_setting_def sample_commands_def web_state_def
  db_state_def web_group_def bucket_def web1_host_def

lemmas run_defs = parse_def read_config_data_def get_def project_paths_def
  find_terraform_binary_def body_defs module_add_group_def module_add_host_def
  from_json_def Let_def

section \<open>The claims\<close>

text \<open>
  Claim C1 says that a warning raised by the state retrieval of one project path is
  absorbed: the run completes, that path is skipped and the resources of the other
  paths reach the inventory. The handler in \<^verbatim>\<open>parse\<close> does the opposite: it raises
  \<^verbatim>\<open>TerraformError(e.message)\<close>. On the sample machine, with the paths \<open>web\<close>, \<open>empty\<close>
  and \<open>db\<close>, the show of \<open>empty\<close> warns; the run raises and the inventory stays empty,
  although \<open>web\<close> alone puts the group \<open>web\<close> into it.
\<close>

theorem C1_show_warning_not_absorbed_counterexample:
  "Show ''empty'' [] (Inl (TerraformWarning ''no state''))
     \<in> set (issued (loop (parse sample_env [] ''multi.yml'' []))) \<and>
   raised (parse sample_env [] ''multi.yml'' []) = Some (TerraformError ''no state'') \<and>
   inventory_after (parse sample_env [] ''multi.yml'' []) = [] \<and>
   raised (parse sample_env [] ''default.yml'' []) = None \<and>
   Add_group ''web'' \<in> set (inventory_after (parse sample_env [] ''default.yml'' []))"
  by (simp add: run_defs sample_defs)

text \<open>
  Claim C1, as amended: in every run in which the state retrieval of some project path
  reports a warning, the run stops at that call and raises a \<^verbatim>\<open>TerraformError\<close> with
  the message of the warning; \<^verbatim>\<open>create_inventory\<close> is never called, so the inventory is
  as it was before the run, for every path.
\<close>

theorem C1_show_warning_aborts_run:
  assumes "Show p f (Inl (TerraformWarning m))
             \<in> set (issued (loop (parse env inventory path w)))"
  shows "raised (parse env inventory path w) = Some (TerraformError m) \<and>
         inventory_after (parse env inventory path w) = inventory \<and>
         built (parse env inventory path w) = [] \<and>
         last (issued (loop (parse env inventory path w))) =
           Show p f (Inl (TerraformWarning m))"
proof -
  from assms have "issued (loop (parse env inventory path w)) \<noteq> []" by auto
  from parse_issued_nonempty [OF this]
  obtain cfg b where cfg: "read_config_data env path = Inr cfg"
    and b: "find_terraform_binary env cfg = Inr b"
    by blast
  obtain r s where run:
    "parse_paths (\<lambda>p. new_TerraformCommands env p b) (get (cfg_state_file cfg) [])
       (get (cfg_workspace cfg) ''default'') (project_paths env cfg)
       \<lparr>state_content = [], issued = [], world = w\<rparr> = (r, s)"
    by (cases "parse_paths (\<lambda>p. new_TerraformCommands env p b) (get (cfg_state_file cfg) [])
       (get (cfg_workspace cfg) ''default'') (project_paths env cfg)
       \<lparr>state_content = [], issued = [], world = w\<rparr>")
  note facts = parse_loop [OF cfg b run, of inventory]
  have "Show p f (Inl (TerraformWarning m)) \<in> set (issued s)"
    using assms facts(2) by simp
  then have "r = Some (TerraformError m) \<and>
             last (issued s) = Show p f (Inl (TerraformWarning m))"
    using parse_paths_show_warning [OF run] by simp
  then show ?thesis
    using facts by simp
qed

theorem C1_show_warning_aborts_run_witness:
  "Show ''empty'' [] (Inl (TerraformWarning ''no state''))
     \<in> set (issued (loop (parse sample_env [Add_group ''old''] ''multi.yml'' []))) \<and>
   raised (parse sample_env [Add_group ''old''] ''multi.yml'' []) =
     Some (TerraformError ''no state'') \<and>
   inventory_after (parse sample_env [Add_group ''old''] ''multi.yml'' []) = [Add_group ''old'']"
proof -
  have h: "Show ''empty'' [] (Inl (TerraformWarning ''no state''))
             \<in> set (issued (loop (parse sample_env [Add_group ''old''] ''multi.yml'' [])))"
    by (simp add: run_defs sample_defs)
  show ?thesis
    using h C1_show_warning_aborts_run [OF h] by simp
qed

text \<open>
  Claim C2 says that a configuration without \<^verbatim>\<open>search_child_modules\<close> behaves as if it
  were false, so that a host found only in a child module stays out of the inventory.
  The documentation of the option gives the default \<^verbatim>\<open>false\<close>, but \<^verbatim>\<open>parse\<close> reads it
  with \<^verbatim>\<open>cfg.get("search_child_modules", True)\<close>. On the sample machine the
  configuration \<open>child.yml\<close> names the project \<open>db\<close> and nothing else; the root module of
  its state has no resource, its child module has the host \<open>db1\<close>; the run calls
  \<^verbatim>\<open>create_inventory\<close> with \<^verbatim>\<open>True\<close> and adds the host.
\<close>

theorem C2_omitted_search_child_modules_reads_child_modules:
  "read_config_data sample_env ''child.yml'' =
     Inr (no_setting\<lparr>cfg_project_path := Some (Str ''db'')\<rparr>) \<and>
   cfg_search_child_modules (no_setting\<lparr>cfg_project_path := Some (Str ''db'')\<rparr>) = None \<and>
   resources (root_module db_state) = [] \<and>
   raised (parse sample_env [] ''child.yml'' []) = None \<and>
   built (parse sample_env [] ''child.yml'' []) = [([Some db_state], True)] \<and>
   inventory_after (parse sample_env [] ''child.yml'' []) = [Add_host ''db1'' None] \<and>
   create_inventory [] [Some db_state] False = []"
  by (simp add: run_defs sample_defs)

text \<open>
  Claim C3: a run that raises, at whatever point, never calls \<^verbatim>\<open>create_inventory\<close> and
  leaves the inventory as it was. A run that does not raise has appended one entry to
  \<^verbatim>\<open>state_content\<close> for every project path, and the inventory after it is that of one
  call of \<^verbatim>\<open>create_inventory\<close> on the whole list, made after the loop: the call is
  made once when the list is not empty and not at all when it is empty (no project
  path), where it would add nothing.
\<close>

theorem C3_failed_run_builds_nothing:
  "(raised (parse env inventory path w) \<noteq> None \<longrightarrow>
      inventory_after (parse env inventory path w) = inventory \<and>
      built (parse env inventory path w) = []) \<and>
   (raised (parse env inventory path w) = None \<longrightarrow>
      (\<exists>cfg. read_config_data env path = Inr cfg \<and>
         length (state_content (loop (parse env inventory path w))) =
           length (project_paths env cfg) \<and>
         inventory_after (parse env inventory path w) =
           create_inventory inventory (state_content (loop (parse env inventory path w)))
             (get (cfg_search_child_modules cfg) True) \<and>
         built (parse env inventory path w) =
           (if state_content (loop (parse env inventory path w)) = [] then []
            else [(state_content (loop (parse env inventory path w)),
                   get (cfg_search_child_modules cfg) True)])))"
proof (intro conjI impI)
  assume ok: "raised (parse env inventory path w) = None"
  then obtain cfg b where cfg: "read_config_data env path = Inr cfg"
    and b: "find_terraform_binary env cfg = Inr b"
    by (auto simp: parse_def Let_def split: sum.splits)
  obtain r s where run:
    "parse_paths (\<lambda>p. new_TerraformCommands env p b) (get (cfg_state_file cfg) [])
       (get (cfg_workspace cfg) ''default'') (project_paths env cfg)
       \<lparr>state_content = [], issued = [], world = w\<rparr> = (r, s)"
    by (cases "parse_paths (\<lambda>p. new_TerraformCommands env p b) (get (cfg_state_file cfg) [])
       (get (cfg_workspace cfg) ''default'') (project_paths env cfg)
       \<lparr>state_content = [], issued = [], world = w\<rparr>")
  note facts = parse_loop [OF cfg b run, of inventory]
  have r: "r = None" using ok facts(1) by simp
  have "length (state_content s) = length (project_paths env cfg)"
    using parse_paths_state_content [OF run [unfolded r]] by simp
  then show "\<exists>cfg. read_config_data env path = Inr cfg \<and>
         length (state_content (loop (parse env inventory path w))) =
           length (project_paths env cfg) \<and>
         inventory_after (parse env inventory path w) =
           create_inventory inventory (state_content (loop (parse env inventory path w)))
             (get (cfg_search_child_modules cfg) True) \<and>
         built (parse env inventory path w) =
           (if state_content (loop (parse env inventory path w)) = [] then []
            else [(state_content (loop (parse env inventory path w)),
                   get (cfg_search_child_modules cfg) True)])"
    using cfg facts(2) facts(5) [OF r] facts(6) [OF r] by auto
qed (simp_all add: parse_raised)

theorem C3_failed_run_builds_nothing_witness:
  "raised (parse sample_env [Add_group ''old''] ''broken.yml'' []) =
     Some (TerraformError ''exit 1'') \<and>
   state_content (loop (parse sample_env [Add_group ''old''] ''broken.yml'' [])) =
     [Some web_state] \<and>
   inventory_after (parse sample_env [Add_group ''old''] ''broken.yml'' []) =
     [Add_group ''old''] \<and>
   built (parse sample_env [Add_group ''old''] ''broken.yml'' []) = [] \<and>
   raised (parse sample_env [] ''default.yml'' []) = None \<and>
   built (parse sample_env [] ''default.yml'' []) = [([Some web_state], True)]"
proof -
  have failed: "raised (parse sample_env [Add_group ''old''] ''broken.yml'' []) =
                  Some (TerraformError ''exit 1'')"
    by (simp add: run_defs sample_defs)
  have content: "state_content (loop (parse sample_env [Add_group ''old''] ''broken.yml'' [])) =
                   [Some web_state]"
    by (simp add: run_defs sample_defs)
  have passed: "raised (parse sample_env [] ''default.yml'' []) = None"
    by (simp add: run_defs sample_defs)
  have content': "state_content (loop (parse sample_env [] ''default.yml'' [])) =
                    [Some web_state]"
    by (simp add: run_defs sample_defs)
  have cfg: "read_config_data sample_env ''default.yml'' = Inr no_setting"
    by (simp add: run_defs sample_defs)
  show ?thesis
    using failed content passed content' cfg
      C3_failed_run_builds_nothing [of sample_env "[Add_group ''old'']" "''broken.yml''" "[]"]
      C3_failed_run_builds_nothing [of sample_env "[]" "''default.yml''" "[]"]
    by (auto simp: get_def no_setting_def)
qed

text \<open>
  Claim C4: when the loop reaches a project path whose workspace context holds the
  requested workspace neither as the current one nor among the known ones, \<^verbatim>\<open>parse\<close>
  raises a \<^verbatim>\<open>TerraformError\<close> whose message names the workspace and the path. The run
  ends there: the last call made on the tool is the listing of that path, no later
  path is touched and the inventory is as it was.
\<close>

theorem C4_unknown_workspace_aborts_run:
  assumes "read_config_data env path = Inr cfg"
      and "find_terraform_binary env cfg = Inr b"
      and "project_paths env cfg = before @ p # after"
      and "parse_paths (\<lambda>q. new_TerraformCommands env q b) (get (cfg_state_file cfg) [])
             (get (cfg_workspace cfg) ''default'') before
             \<lparr>state_content = [], issued = [], world = w\<rparr> = (None, s1)"
      and "try_workspace_list (new_TerraformCommands env p b) p s1 = (Inr workspace_ctx, s2)"
      and "get (cfg_workspace cfg) ''default'' \<notin> set (all workspace_ctx)"
      and "get (cfg_workspace cfg) ''default'' \<noteq> current workspace_ctx"
  shows "parse env inventory path w =
           \<lparr>raised = Some (TerraformError (''Workspace '' @ get (cfg_workspace cfg) ''default'' @
                                            '' does not exist in '' @ p)),
            inventory_after = inventory, built = [], loop = s2\<rparr>"
proof -
  have "parse_path (new_TerraformCommands env p b) (get (cfg_state_file cfg) [])
          (get (cfg_workspace cfg) ''default'') p s1 =
        (Some (TerraformError (''Workspace '' @ get (cfg_workspace cfg) ''default'' @
                               '' does not exist in '' @ p)), s2)"
    using assms(5-7) by (simp add: parse_path_def use_workspace_def)
  then have "parse_paths (\<lambda>q. new_TerraformCommands env q b) (get (cfg_state_file cfg) [])
          (get (cfg_workspace cfg) ''default'') (before @ p # after)
          \<lparr>state_content = [], issued = [], world = w\<rparr> =
        (Some (TerraformError (''Workspace '' @ get (cfg_workspace cfg) ''default'' @
                               '' does not exist in '' @ p)), s2)"
    using assms(4) by (simp add: parse_paths_append)
  then show ?thesis
    using assms(1-3) by (simp add: parse_def Let_def)
qed

theorem C4_unknown_workspace_aborts_run_witness:
  "project_paths sample_env
     (no_setting\<lparr>cfg_project_path := Some (StrList [''db'', ''web'']),
                 cfg_workspace := Some ''staging''\<rparr>) = [''db''] @ ''web'' # [] \<and>
   fst (try_workspace_list (sample_commands ''web'' ''/usr/bin/terraform'') ''web''
          \<lparr>state_content = [], issued = [], world = [(''db'', ''staging'')]\<rparr>) =
     Inr \<lparr>current = ''default'', all = [''dev'', ''default'']\<rparr> \<and>
   raised (parse sample_env [] ''staging.yml'' []) =
     Some (TerraformError ''Workspace staging does not exist in web'') \<and>
   inventory_after (parse sample_env [] ''staging.yml'' []) = [] \<and>
   last (issued (loop (parse sample_env [] ''staging.yml'' []))) =
     Workspace_list ''web'' (Inr \<lparr>current = ''default'', all = [''dev'', ''default'']\<rparr>)"
proof -
  let ?cfg = "no_setting\<lparr>cfg_project_path := Some (StrList [''db'', ''web'']),
                          cfg_workspace := Some ''staging''\<rparr>"
  let ?s1 = "\<lparr>state_content = [Some db_state],
              issued = [Workspace_list ''db''
                          (Inr \<lparr>current = ''default'',
                                all = [''dev'', ''default'', ''staging'']\<rparr>),
                        Workspace ''db'' SELECT ''staging'' (Inr ()),
                        Show ''db'' [] (Inr (Some db_state))],
              world = [(''db'', ''staging'')]\<rparr>"
  let ?ctx = "\<lparr>current = ''default'', all = [''dev'', ''default'']\<rparr>"
  let ?s2 = "?s1\<lparr>issued := issued ?s1 @ [Workspace_list ''web'' (Inr ?ctx)]\<rparr>"
  have h1: "read_config_data sample_env ''staging.yml'' = Inr ?cfg"
    by (simp add: read_config_data_def sample_defs)
  have h2: "find_terraform_binary sample_env ?cfg = Inr ''/usr/bin/terraform''"
    by (simp add: find_terraform_binary_def sample_defs)
  have h3: "project_paths sample_env ?cfg = [''db''] @ ''web'' # []"
    by (simp add: project_paths_def get_def sample_defs)
  have h4: "parse_paths (\<lambda>q. new_TerraformCommands sample_env q ''/usr/bin/terraform'')
              (get (cfg_state_file ?cfg) []) (get (cfg_workspace ?cfg) ''default'') [''db'']
              \<lparr>state_content = [], issued = [], world = []\<rparr> = (None, ?s1)"
    by (simp add: body_defs get_def sample_defs)
  have h5: "try_workspace_list (new_TerraformCommands sample_env ''web'' ''/usr/bin/terraform'')
              ''web'' ?s1 = (Inr ?ctx, ?s2)"
    by (simp add: body_defs sample_defs)
  have h6: "get (cfg_workspace ?cfg) ''default'' \<notin> set (all ?ctx)"
    by (simp add: get_def sample_defs)
  have h7: "get (cfg_workspace ?cfg) ''default'' \<noteq> current ?ctx"
    by (simp add: get_def sample_defs)
  have ctx: "fst (try_workspace_list (sample_commands ''web'' ''/usr/bin/terraform'') ''web''
          \<lparr>state_content = [], issued = [], world = [(''db'', ''staging'')]\<rparr>) = Inr ?ctx"
    by (simp add: body_defs sample_defs)
  show ?thesis
    using h3 ctx C4_unknown_workspace_aborts_run [OF h1 h2 h3 h4 h5 h6 h7, of "[]"]
    by (simp add: get_def sample_defs)
qed

text \<open>
  Claim C5: the loop over the resources of a state document looks at the \<^verbatim>\<open>type\<close> of
  a resource and at nothing else to decide what to do with it. The calls it adds are,
  resource by resource and in order, those of \<^verbatim>\<open>_add_group\<close> for a resource of type
  \<^verbatim>\<open>ansible_group\<close>, those of \<^verbatim>\<open>_add_host\<close> for one of type \<^verbatim>\<open>ansible_host\<close>, and none
  for a resource of any other type; \<^verbatim>\<open>create_inventory\<close> adds these for every document
  in turn. So the inventory built from a list of resources is the one built from its
  resources of the two types alone, a resource of another type stops nothing, and every
  resource of type \<^verbatim>\<open>ansible_host\<close> or \<^verbatim>\<open>ansible_group\<close> in the root module of a
  document is added as a host or as a group, whatever else the documents hold.
\<close>

theorem C5_classified_by_type_tag:
  "add_resources inventory rs =
     add_resources inventory
       (filter (\<lambda>r. type r = ''ansible_group'' \<or> type r = ''ansible_host'') rs) \<and>
   (\<forall>state h. Some state \<in> set sc \<and> h \<in> set (resources (root_module state)) \<and>
               type h = ''ansible_host'' \<longrightarrow>
      Add_host (name (from_json h)) None \<in> set (create_inventory inventory sc scm)) \<and>
   (\<forall>state g. Some state \<in> set sc \<and> g \<in> set (resources (root_module state)) \<and>
               type g = ''ansible_group'' \<longrightarrow>
      Add_group (name (from_json g)) \<in> set (create_inventory inventory sc scm)) \<and>
   add_resources inventory rs =
     inventory @
     concat (map (\<lambda>r. if type r = ''ansible_group'' then module_add_group [] r
                      else if type r = ''ansible_host'' then module_add_host [] r
                      else []) rs) \<and>
   create_inventory inventory sc scm =
     inventory @
     concat (map (\<lambda>st. case st of
                          None \<Rightarrow> []
                        | Some state \<Rightarrow>
                            concat (map (\<lambda>r. if type r = ''ansible_group''
                                               then module_add_group [] r
                                             else if type r = ''ansible_host''
                                               then module_add_host [] r
                                             else [])
                                      (if \<not> scm then resources (root_module state)
                                       else flatten_resources (root_module state)))) sc)"
proof (intro conjI)
  show "add_resources inventory rs =
          add_resources inventory
            (filter (\<lambda>r. type r = ''ansible_group'' \<or> type r = ''ansible_host'') rs)"
    by (rule add_resources_filter)
  show "\<forall>state h. Some state \<in> set sc \<and> h \<in> set (resources (root_module state)) \<and>
               type h = ''ansible_host'' \<longrightarrow>
      Add_host (name (from_json h)) None \<in> set (create_inventory inventory sc scm)"
    using create_inventory_host [of _ sc _ inventory scm] by blast
  show "\<forall>state g. Some state \<in> set sc \<and> g \<in> set (resources (root_module state)) \<and>
               type g = ''ansible_group'' \<longrightarrow>
      Add_group (name (from_json g)) \<in> set (create_inventory inventory sc scm)"
    using create_inventory_group [of _ sc _ inventory scm] by blast
  show "add_resources inventory rs =
          inventory @
          concat (map (\<lambda>r. if type r = ''ansible_group'' then module_add_group [] r
                           else if type r = ''ansible_host'' then module_add_host [] r
                           else []) rs)"
    by (rule add_resources_concat)
  show "create_inventory inventory sc scm =
     inventory @
     concat (map (\<lambda>st. case st of
                          None \<Rightarrow> []
                        | Some state \<Rightarrow>
                            concat (map (\<lambda>r. if type r = ''ansible_group''
                                               then module_add_group [] r
                                             else if type r = ''ansible_host''
                                               then module_add_host [] r
                                             else [])
                                      (if \<not> scm then resources (root_module state)
                                       else flatten_resources (root_module state)))) sc)"
    unfolding create_inventory_concat [of inventory sc scm]
    by (simp add: add_resources_concat [of "[]"] cong: option.case_cong)
qed

theorem C5_classified_by_type_tag_witness:
  "add_resources [] [bucket, web1_host] = add_resources [] [web1_host] \<and>
   type bucket = ''unrelated_resource'' \<and>
   Some web_state \<in> set [Some web_state] \<and>
   web1_host \<in> set (resources (root_module web_state)) \<and>
   bucket \<in> set (resources (root_module web_state)) \<and>
   web_group \<in> set (resources (root_module web_state)) \<and>
   Add_host ''web1'' None \<in> set (create_inventory [] [Some web_state] False) \<and>
   Add_group ''web'' \<in> set (create_inventory [] [Some web_state] False) \<and>
   create_inventory [] [Some web_state] False =
     [Add_group ''web'', Add_group ''workers'', Add_child ''web'' ''workers'',
      Set_variable ''web'' ''region'' ''us-east'',
      Add_host ''web1'' None, Add_group ''web'', Add_host ''web1'' (Some ''web''),
      Set_variable ''web1'' ''ansible_host'' ''10.0.0.1'']"
proof -
  have h: "Some web_state \<in> set [Some web_state] \<and>
           web1_host \<in> set (resources (root_module web_state)) \<and>
           type web1_host = ''ansible_host''"
    by (simp add: sample_defs)
  have g: "Some web_state \<in> set [Some web_state] \<and>
           web_group \<in> set (resources (root_module web_state)) \<and>
           type web_group = ''ansible_group''"
    by (simp add: sample_defs)
  have b: "bucket \<in> set (resources (root_module web_state)) \<and>
           type bucket = ''unrelated_resource''"
    by (simp add: sample_defs)
  note c = C5_classified_by_type_tag [of "[]" "[bucket, web1_host]" "[Some web_state]" False]
  from c have "add_resources [] [bucket, web1_host] = add_resources [] [web1_host]"
    by (simp add: sample_defs)
  moreover from c h have "Add_host (name (from_json web1_host)) None
                            \<in> set (create_inventory [] [Some web_state] False)"
    by blast
  then have "Add_host ''web1'' None \<in> set (create_inventory [] [Some web_state] False)"
    by (simp add: web1_host_def from_json_def)
  moreover from c g have "Add_group (name (from_json web_group))
                            \<in> set (create_inventory [] [Some web_state] False)"
    by blast
  then have "Add_group ''web'' \<in> set (create_inventory [] [Some web_state] False)"
    by (simp add: web_group_def from_json_def)
  moreover from c have "create_inventory [] [Some web_state] False =
     [Add_group ''web'', Add_group ''workers'', Add_child ''web'' ''workers'',
      Set_variable ''web'' ''region'' ''us-east'',
      Add_host ''web1'' None, Add_group ''web'', Add_host ''web1'' (Some ''web''),
      Set_variable ''web1'' ''ansible_host'' ''10.0.0.1'']"
    by (simp add: sample_defs module_add_group_def module_add_host_def from_json_def)
  ultimately show ?thesis using h g b by simp
qed

text \<open>
  Claim C6: among the calls \<^verbatim>\<open>_add_host\<close> makes for a host record, every group the
  record names gets \<^verbatim>\<open>add_group\<close> and, right after it, the \<^verbatim>\<open>add_host\<close> that makes
  the host its member; every call that makes a host a member of a group comes right
  after the \<^verbatim>\<open>add_group\<close> of that group. On the inventory graph, after any number of
  these calls, every membership is in a group that exists, if that was so before.
\<close>

theorem C6_group_created_before_membership:
  assumes "module_add_host inventory resource = inventory @ calls"
  shows "(\<forall>g \<in> set (groups (from_json resource)).
            \<exists>pre post. calls = pre @ [Add_group g,
                                       Add_host (name (from_json resource)) (Some g)] @ post) \<and>
         (\<forall>pre h g post. calls = pre @ Add_host h (Some g) # post \<longrightarrow>
            (\<exists>pre'. pre = pre' @ [Add_group g])) \<and>
         (\<forall>G k. (\<forall>(h, g) \<in> graph_members G. g \<in> graph_groups G) \<longrightarrow>
            (\<forall>(h, g) \<in> graph_members (build G (take k calls)).
               g \<in> graph_groups (build G (take k calls))))"
proof -
  have calls: "calls = module_add_host [] resource"
    using assms module_add_host_append [of inventory resource] by simp
  show ?thesis
    unfolding calls
    using module_add_host_pair [of _ resource] module_add_host_guard [of resource]
          module_add_host_no_dangling [of _ _ resource]
    by blast
qed

theorem C6_group_created_before_membership_witness:
  "module_add_host [Add_group ''old''] web1_host =
     [Add_group ''old''] @
     [Add_host ''web1'' None, Add_group ''web'', Add_host ''web1'' (Some ''web''),
      Set_variable ''web1'' ''ansible_host'' ''10.0.0.1''] \<and>
   (\<exists>pre'. [Add_host ''web1'' None, Add_group ''web''] = pre' @ [Add_group ''web'']) \<and>
   ''web'' \<in> graph_groups (build empty_graph
                [Add_host ''web1'' None, Add_group ''web'', Add_host ''web1'' (Some ''web'')])"
proof -
  let ?calls = "[Add_host ''web1'' None, Add_group ''web'', Add_host ''web1'' (Some ''web''),
                 Set_variable ''web1'' ''ansible_host'' ''10.0.0.1'']"
  have h: "module_add_host [Add_group ''old''] web1_host = [Add_group ''old''] @ ?calls"
    by (simp add: module_add_host_def from_json_def web1_host_def)
  note c = C6_group_created_before_membership [OF h]
  have split: "?calls = [Add_host ''web1'' None, Add_group ''web''] @
                 Add_host ''web1'' (Some ''web'') #
                 [Set_variable ''web1'' ''ansible_host'' ''10.0.0.1'']"
    by simp
  from c split have guard: "\<exists>pre'. [Add_host ''web1'' None, Add_group ''web''] =
                              pre' @ [Add_group ''web'']"
    by blast
  have start: "\<forall>(h, g) \<in> graph_members empty_graph. g \<in> graph_groups empty_graph"
    by (simp add: empty_graph_def)
  have member: "(''web1'', ''web'') \<in> graph_members (build empty_graph (take 3 ?calls))"
    by (simp add: build_def empty_graph_def)
  from c start have "\<forall>(h, g) \<in> graph_members (build empty_graph (take 3 ?calls)).
                       g \<in> graph_groups (build empty_graph (take 3 ?calls))"
    by blast
  with member have "''web'' \<in> graph_groups (build empty_graph (take 3 ?calls))"
    by blast
  then have "''web'' \<in> graph_groups (build empty_graph
                [Add_host ''web1'' None, Add_group ''web'', Add_host ''web1'' (Some ''web'')])"
    by simp
  with h guard show ?thesis by blast
qed

text \<open>
  Claim C7: take any list of group records and run \<^verbatim>\<open>_add_group\<close> over it on a fresh
  inventory, then over the same list once more on the same inventory. The graph built
  from the calls of both passes, starting from the empty graph, is the graph built from
  the calls of the first pass: the same groups, edges and variables (and hosts and
  memberships, of which there are none).
\<close>

theorem C7_group_records_idempotent:
  "build empty_graph (foldl module_add_group (foldl module_add_group [] rs) rs) =
     build empty_graph (foldl module_add_group [] rs)"
  using foldl_module_add_group_append [of "foldl module_add_group [] rs" rs]
  by (simp add: build_append build_twice)

theorem C7_group_records_idempotent_witness:
  "graph_groups (build empty_graph (foldl module_add_group [] [web_group])) =
     {''web'', ''workers''} \<and>
   graph_edges (build empty_graph (foldl module_add_group [] [web_group])) =
     {(''web'', ''workers'')} \<and>
   graph_vars (build empty_graph (foldl module_add_group [] [web_group]))
     (''web'', ''region'') = Some ''us-east'' \<and>
   build empty_graph
     (foldl module_add_group (foldl module_add_group [] [web_group]) [web_group]) =
     build empty_graph (foldl module_add_group [] [web_group])"
proof -
  have calls: "foldl module_add_group [] [web_group] =
                 [Add_group ''web'', Add_group ''workers'', Add_child ''web'' ''workers'',
                  Set_variable ''web'' ''region'' ''us-east'']"
    by (simp add: module_add_group_def from_json_def web_group_def)
  have "graph_groups (build empty_graph (foldl module_add_group [] [web_group])) =
          {''web'', ''workers''}"
    unfolding calls by (auto simp: build_def empty_graph_def)
  moreover have "graph_edges (build empty_graph (foldl module_add_group [] [web_group])) =
          {(''web'', ''workers'')}"
    unfolding calls by (simp add: build_def empty_graph_def)
  moreover have "graph_vars (build empty_graph (foldl module_add_group [] [web_group]))
          (''web'', ''region'') = Some ''us-east''"
    unfolding calls by (simp add: build_def empty_graph_def)
  ultimately show ?thesis
    using C7_group_records_idempotent [of "[web_group]"] by simp
qed

text \<open>
  Claim C8: when the listing of the workspaces of a project path raises a
  \<^verbatim>\<open>TerraformWarning\<close>, the handler binds the context with the current workspace
  \<open>default\<close> and no known workspace, and the body of the loop goes on with that context
  as with any other; with the workspace \<open>default\<close> requested it goes straight on to the
  show of the path. Nothing is raised at the listing.
\<close>

theorem C8_workspace_list_warning_defaults:
  assumes "tf_workspace_list terraform (world s) = (Inl (TerraformWarning m), w1)"
      and "s1 = s\<lparr>issued := issued s @ [Workspace_list p (Inl (TerraformWarning m))],
                   world := w1\<rparr>"
  shows "try_workspace_list terraform p s = (Inr \<lparr>current = ''default'', all = []\<rparr>, s1) \<and>
         parse_path terraform sf ws p s =
           use_workspace terraform sf ws p \<lparr>current = ''default'', all = []\<rparr> s1 \<and>
         parse_path terraform sf ''default'' p s = append_state terraform sf p s1"
  using assms
  by (simp add: parse_path_def try_workspace_list_def use_workspace_def)

theorem C8_workspace_list_warning_defaults_witness:
  "tf_workspace_list (sample_commands ''legacy'' ''terraform'') [] =
     (Inl (TerraformWarning ''no workspaces''), []) \<and>
   fst (try_workspace_list (sample_commands ''legacy'' ''terraform'') ''legacy''
          \<lparr>state_content = [], issued = [], world = []\<rparr>) =
     Inr \<lparr>current = ''default'', all = []\<rparr> \<and>
   parse_path (sample_commands ''legacy'' ''terraform'') [] ''default'' ''legacy''
     \<lparr>state_content = [], issued = [], world = []\<rparr> =
     (None,
      \<lparr>state_content = [Some web_state],
       issued = [Workspace_list ''legacy'' (Inl (TerraformWarning ''no workspaces'')),
                 Show ''legacy'' [] (Inr (Some web_state))],
       world = []\<rparr>)"
proof -
  let ?s = "\<lparr>state_content = [], issued = [], world = []\<rparr> :: (string \<times> string) list loop_state"
  let ?s1 = "?s\<lparr>issued := issued ?s @
                      [Workspace_list ''legacy'' (Inl (TerraformWarning ''no workspaces''))],
                 world := []\<rparr>"
  have h: "tf_workspace_list (sample_commands ''legacy'' ''terraform'') (world ?s) =
             (Inl (TerraformWarning ''no workspaces''), [])"
    by (simp add: sample_commands_def)
  have shown: "append_state (sample_commands ''legacy'' ''terraform'') [] ''legacy'' ?s1 =
     (None,
      \<lparr>state_content = [Some web_state],
       issued = [Workspace_list ''legacy'' (Inl (TerraformWarning ''no workspaces'')),
                 Show ''legacy'' [] (Inr (Some web_state))],
       world = []\<rparr>)"
    by (simp add: append_state_def sample_commands_def)
  note c = C8_workspace_list_warning_defaults [OF h refl, of "''legacy''" "[]" "''default''"]
  have listed: "tf_workspace_list (sample_commands ''legacy'' ''terraform'') [] =
                  (Inl (TerraformWarning ''no workspaces''), [])"
    using h by simp
  from c have "try_workspace_list (sample_commands ''legacy'' ''terraform'') ''legacy'' ?s =
                 (Inr \<lparr>current = ''default'', all = []\<rparr>, ?s1)"
    by blast
  then have ctx: "fst (try_workspace_list (sample_commands ''legacy'' ''terraform'') ''legacy'' ?s) =
                    Inr \<lparr>current = ''default'', all = []\<rparr>"
    by (simp only: fst_conv)
  from c have "parse_path (sample_commands ''legacy'' ''terraform'') [] ''default'' ''legacy'' ?s =
                 append_state (sample_commands ''legacy'' ''terraform'') [] ''legacy'' ?s1"
    by blast
  with shown have "parse_path (sample_commands ''legacy'' ''terraform'') [] ''default'' ''legacy'' ?s =
     (None,
      \<lparr>state_content = [Some web_state],
       issued = [Workspace_list ''legacy'' (Inl (TerraformWarning ''no workspaces'')),
                 Show ''legacy'' [] (Inr (Some web_state))],
       world = []\<rparr>)"
    by (simp only:)
  with listed ctx show ?thesis by blast
qed

text \<open>
  Claim C9: in the body of the loop for a project path, a call
  \<^verbatim>\<open>workspace(SELECT, workspace)\<close> is made exactly when a workspace context was bound,
  the requested workspace is known in it or current, and it is not the current one.
  No other call of \<^verbatim>\<open>workspace\<close> is made; so nothing is selected when the requested
  workspace is already the current one. The call that is made is the tool's own: it
  runs on the world the listing left, what it raises leaves the loop, and what it
  returns is followed by the show of the path on the world the select left. When the
  requested workspace is the current one the show runs on the world the listing left;
  when it is unknown, or the listing raised, nothing more is run.
\<close>

theorem C9_select_iff_valid_and_not_current:
  assumes "parse_path terraform sf ws p s = (r, s2)"
  shows "((\<exists>res. Workspace p SELECT ws res \<in> set (drop (length (issued s)) (issued s2))) \<longleftrightarrow>
          (\<exists>workspace_ctx s1.
             try_workspace_list terraform p s = (Inr workspace_ctx, s1) \<and>
             (ws \<in> set (all workspace_ctx) \<or> ws = current workspace_ctx) \<and>
             ws \<noteq> current workspace_ctx)) \<and>
         (\<forall>q c n res. Workspace q c n res \<in> set (drop (length (issued s)) (issued s2)) \<longrightarrow>
             q = p \<and> c = SELECT \<and> n = ws) \<and>
         (\<forall>workspace_ctx s1.
            try_workspace_list terraform p s = (Inr workspace_ctx, s1) \<and>
            (ws \<in> set (all workspace_ctx) \<or> ws = current workspace_ctx) \<and>
            ws \<noteq> current workspace_ctx \<longrightarrow>
            (r, s2) =
              (case tf_workspace terraform SELECT ws (world s1) of
                 (Inl e, w1) \<Rightarrow>
                   (Some e, s1\<lparr>issued := issued s1 @ [Workspace p SELECT ws (Inl e)],
                               world := w1\<rparr>)
               | (Inr u, w1) \<Rightarrow>
                   append_state terraform sf p
                     (s1\<lparr>issued := issued s1 @ [Workspace p SELECT ws (Inr u)],
                         world := w1\<rparr>)) \<and>
            take (Suc (length (issued s1))) (issued s2) =
              issued s1 @
              [Workspace p SELECT ws (fst (tf_workspace terraform SELECT ws (world s1)))]) \<and>
         (\<forall>workspace_ctx s1.
            try_workspace_list terraform p s = (Inr workspace_ctx, s1) \<and>
            ws = current workspace_ctx \<longrightarrow>
            (r, s2) = append_state terraform sf p s1) \<and>
         (\<forall>workspace_ctx s1.
            try_workspace_list terraform p s = (Inr workspace_ctx, s1) \<and>
            ws \<notin> set (all workspace_ctx) \<and> ws \<noteq> current workspace_ctx \<longrightarrow>
            (r, s2) =
              (Some (TerraformError (''Workspace '' @ ws @ '' does not exist in '' @ p)), s1)) \<and>
         (\<forall>e s1. try_workspace_list terraform p s = (Inl e, s1) \<longrightarrow> (r, s2) = (Some e, s1))"
proof (intro conjI allI impI)
  show "(\<exists>res. Workspace p SELECT ws res \<in> set (drop (length (issued s)) (issued s2))) \<longleftrightarrow>
          (\<exists>workspace_ctx s1.
             try_workspace_list terraform p s = (Inr workspace_ctx, s1) \<and>
             (ws \<in> set (all workspace_ctx) \<or> ws = current workspace_ctx) \<and>
             ws \<noteq> current workspace_ctx)"
    using assms
    by (auto simp: body_defs Let_def
             split: prod.splits sum.splits exn.splits if_splits option.splits)
next
  fix q c n res
  assume "Workspace q c n res \<in> set (drop (length (issued s)) (issued s2))"
  with assms show "q = p" "c = SELECT" "n = ws"
    by (auto simp: body_defs Let_def
             split: prod.splits sum.splits exn.splits if_splits option.splits)
next
  fix workspace_ctx s1
  assume h: "try_workspace_list terraform p s = (Inr workspace_ctx, s1) \<and>
             (ws \<in> set (all workspace_ctx) \<or> ws = current workspace_ctx) \<and>
             ws \<noteq> current workspace_ctx"
  then have run: "parse_path terraform sf ws p s =
           (case tf_workspace terraform SELECT ws (world s1) of
              (Inl e, w1) \<Rightarrow>
                (Some e, s1\<lparr>issued := issued s1 @ [Workspace p SELECT ws (Inl e)],
                            world := w1\<rparr>)
            | (Inr u, w1) \<Rightarrow>
                append_state terraform sf p
                  (s1\<lparr>issued := issued s1 @ [Workspace p SELECT ws (Inr u)], world := w1\<rparr>))"
    using parse_path_selects [of terraform p s workspace_ctx s1 ws sf] by blast
  with assms show "(r, s2) =
           (case tf_workspace terraform SELECT ws (world s1) of
              (Inl e, w1) \<Rightarrow>
                (Some e, s1\<lparr>issued := issued s1 @ [Workspace p SELECT ws (Inl e)],
                            world := w1\<rparr>)
            | (Inr u, w1) \<Rightarrow>
                append_state terraform sf p
                  (s1\<lparr>issued := issued s1 @ [Workspace p SELECT ws (Inr u)], world := w1\<rparr>))"
    by simp
  from assms run show "take (Suc (length (issued s1))) (issued s2) =
          issued s1 @
          [Workspace p SELECT ws (fst (tf_workspace terraform SELECT ws (world s1)))]"
    by (auto simp: append_state_def Let_def
             split: prod.splits sum.splits exn.splits)
next
  fix workspace_ctx s1
  assume "try_workspace_list terraform p s = (Inr workspace_ctx, s1) \<and>
          ws = current workspace_ctx"
  then show "(r, s2) = append_state terraform sf p s1"
    using assms parse_path_current [of terraform p s workspace_ctx s1 ws sf] by simp
next
  fix workspace_ctx s1
  assume "try_workspace_list terraform p s = (Inr workspace_ctx, s1) \<and>
          ws \<notin> set (all workspace_ctx) \<and> ws \<noteq> current workspace_ctx"
  then show "(r, s2) =
          (Some (TerraformError (''Workspace '' @ ws @ '' does not exist in '' @ p)), s1)"
    using assms parse_path_unknown [of terraform p s workspace_ctx s1 ws sf] by simp
next
  fix e s1
  assume "try_workspace_list terraform p s = (Inl e, s1)"
  then show "(r, s2) = (Some e, s1)"
    using assms parse_path_no_context [of terraform p s e s1 sf ws] by simp
qed

theorem C9_select_iff_valid_and_not_current_witness:
  "(\<exists>res. Workspace ''db'' SELECT ''staging'' res
      \<in> set (issued (snd (parse_path (sample_commands ''db'' ''terraform'') [] ''staging'' ''db''
                            \<lparr>state_content = [], issued = [], world = []\<rparr>)))) \<and>
   \<not> (\<exists>res. Workspace ''web'' SELECT ''default'' res
      \<in> set (issued (snd (parse_path (sample_commands ''web'' ''terraform'') [] ''default'' ''web''
                            \<lparr>state_content = [], issued = [], world = []\<rparr>)))) \<and>
   tf_workspace (sample_commands ''db'' ''terraform'') SELECT ''staging'' [] =
     (Inr (), [(''db'', ''staging'')]) \<and>
   parse_path (sample_commands ''db'' ''terraform'') [] ''staging'' ''db''
     \<lparr>state_content = [], issued = [], world = []\<rparr> =
     (None,
      \<lparr>state_content = [Some db_state],
       issued = [Workspace_list ''db''
                   (Inr \<lparr>current = ''default'', all = [''dev'', ''default'', ''staging'']\<rparr>),
                 Workspace ''db'' SELECT ''staging'' (Inr ()),
                 Show ''db'' [] (Inr (Some db_state))],
       world = [(''db'', ''staging'')]\<rparr>) \<and>
   parse_path (sample_commands ''web'' ''terraform'') [] ''default'' ''web''
     \<lparr>state_content = [], issued = [], world = []\<rparr> =
     (None,
      \<lparr>state_content = [Some web_state],
       issued = [Workspace_list ''web''
                   (Inr \<lparr>current = ''default'', all = [''dev'', ''default'']\<rparr>),
                 Show ''web'' [] (Inr (Some web_state))],
       world = []\<rparr>)"
proof -
  let ?s = "\<lparr>state_content = [], issued = [], world = []\<rparr> :: (string \<times> string) list loop_state"
  let ?db = "parse_path (sample_commands ''db'' ''terraform'') [] ''staging'' ''db'' ?s"
  let ?web = "parse_path (sample_commands ''web'' ''terraform'') [] ''default'' ''web'' ?s"
  have db: "?db = (fst ?db, snd ?db)" by simp
  have web: "?web = (fst ?web, snd ?web)" by simp
  let ?ctx_db = "\<lparr>current = ''default'', all = [''dev'', ''default'', ''staging'']\<rparr>"
  let ?ctx_web = "\<lparr>current = ''default'', all = [''dev'', ''default'']\<rparr>"
  let ?s_db = "\<lparr>state_content = [], issued = [Workspace_list ''db'' (Inr ?ctx_db)],
                world = []\<rparr> :: (string \<times> string) list loop_state"
  let ?s_web = "\<lparr>state_content = [], issued = [Workspace_list ''web'' (Inr ?ctx_web)],
                 world = []\<rparr> :: (string \<times> string) list loop_state"
  have ctx_db: "try_workspace_list (sample_commands ''db'' ''terraform'') ''db'' ?s =
                  (Inr ?ctx_db, ?s_db)"
    by (simp add: try_workspace_list_def sample_commands_def)
  have ctx_web: "try_workspace_list (sample_commands ''web'' ''terraform'') ''web'' ?s =
                  (Inr ?ctx_web, ?s_web)"
    by (simp add: try_workspace_list_def sample_commands_def)
  have pre_db: "try_workspace_list (sample_commands ''db'' ''terraform'') ''db'' ?s =
                  (Inr ?ctx_db, ?s_db) \<and>
                (''staging'' \<in> set (all ?ctx_db) \<or> ''staging'' = current ?ctx_db) \<and>
                ''staging'' \<noteq> current ?ctx_db"
    using ctx_db by simp
  have pre_web: "try_workspace_list (sample_commands ''web'' ''terraform'') ''web'' ?s =
                  (Inr ?ctx_web, ?s_web) \<and> ''default'' = current ?ctx_web"
    using ctx_web by simp
  have sel: "tf_workspace (sample_commands ''db'' ''terraform'') SELECT ''staging'' [] =
               (Inr (), [(''db'', ''staging'')])"
    by (simp add: sample_commands_def)
  note c_db = C9_select_iff_valid_and_not_current [OF db]
  note c_web = C9_select_iff_valid_and_not_current [OF web]
  from c_db [THEN conjunct1] ctx_db
  have "\<exists>res. Workspace ''db'' SELECT ''staging'' res \<in> set (issued (snd ?db))"
    by simp
  moreover from c_web [THEN conjunct1] ctx_web
  have "\<not> (\<exists>res. Workspace ''web'' SELECT ''default'' res \<in> set (issued (snd ?web)))"
    by simp
  moreover
  from c_db [THEN conjunct2, THEN conjunct2, THEN conjunct1, THEN spec, THEN spec, THEN mp,
             OF pre_db, THEN conjunct1] sel
  have "?db = (None,
      \<lparr>state_content = [Some db_state],
       issued = [Workspace_list ''db'' (Inr ?ctx_db),
                 Workspace ''db'' SELECT ''staging'' (Inr ()),
                 Show ''db'' [] (Inr (Some db_state))],
       world = [(''db'', ''staging'')]\<rparr>)"
    by (simp add: append_state_def sample_commands_def)
  moreover
  from c_web [THEN conjunct2, THEN conjunct2, THEN conjunct2, THEN conjunct1, THEN spec,
              THEN spec, THEN mp, OF pre_web]
  have "?web = (None,
      \<lparr>state_content = [Some web_state],
       issued = [Workspace_list ''web'' (Inr ?ctx_web),
                 Show ''web'' [] (Inr (Some web_state))],
       world = []\<rparr>)"
    by (simp add: append_state_def sample_commands_def)
  ultimately show ?thesis using sel by simp
qed

text \<open>
  Claim C10: \<^verbatim>\<open>create_inventory\<close> passes over the entries of \<^verbatim>\<open>state_content\<close> that
  are \<^verbatim>\<open>None\<close>. The inventory it returns is the one it returns for the list without
  these entries, and a list of such entries alone leaves the inventory as it is. The
  function has no failing branch.
\<close>

theorem C10_create_inventory_skips_None:
  "create_inventory inventory sc scm =
     create_inventory inventory (filter (\<lambda>state. state \<noteq> None) sc) scm \<and>
   create_inventory inventory (replicate k None) scm = inventory"
proof
  show "create_inventory inventory sc scm =
          create_inventory inventory (filter (\<lambda>state. state \<noteq> None) sc) scm"
  proof (induction sc arbitrary: inventory)
    case Nil
    show ?case by simp
  next
    case (Cons st sc)
    show ?case by (cases st) (simp_all add: Cons.IH Let_def)
  qed
  show "create_inventory inventory (replicate k None) scm = inventory"
    by (induction k) simp_all
qed

theorem C10_create_inventory_skips_None_witness:
  "filter (\<lambda>state. state \<noteq> None) [None, Some db_state, None] = [Some db_state] \<and>
   create_inventory [] [None, Some db_state, None] True = [Add_host ''db1'' None] \<and>
   create_inventory [] [Some db_state] True = [Add_host ''db1'' None] \<and>
   create_inventory [Add_group ''old''] (replicate 2 None) True = [Add_group ''old'']"
proof -
  have "create_inventory [] [Some db_state] True = [Add_host ''db1'' None]"
    by (simp add: db_state_def module_add_host_def from_json_def)
  then show ?thesis
    using C10_create_inventory_skips_None [of "[]" "[None, Some db_state, None]" True 0]
          C10_create_inventory_skips_None [of "[Add_group ''old'']" "[]" True 2]
    by simp
qed

end
